theory Spec2Isabelle
  imports Complex_Main "HOL-Library.Word"
begin

section \<open>The master of a QuarkChain cluster (quarkchain/cluster/master.py)\<close>

text \<open>
  The development embeds the pure decision logic of \<^verbatim>\<open>SlaveConnection\<close> and
  \<^verbatim>\<open>MasterServer\<close>. Whatever lives in other modules of the repository
  (\<^verbatim>\<open>quarkchain.core\<close>, \<^verbatim>\<open>quarkchain.cluster.root_state\<close>, the slaves at the other end of
  the wire, the network) enters every definition as an explicit argument, so each theorem
  holds for every behaviour of those collaborators. Exceptions are values of \<open>py_error\<close>;
  a function that may raise returns \<open>py_error + 'a\<close>.
\<close>

subsection \<open>Python values\<close>

datatype py_error = ZeroDivisionError | KeyError | AssertionError | TypeError | ValueError

text \<open>
  \<^verbatim>\<open>a / b\<close> on two Python integers is true division: it raises on a zero divisor and
  yields a float otherwise. The floats are not modelled: the quotient is the argument
  \<open>td\<close>, into any linearly ordered type, as the quotients of integers are among the floats
  (none of them is a NaN). Operands too large for a float, on which Python raises
  \<^verbatim>\<open>OverflowError\<close>, are left out.
\<close>

definition py_truediv :: "(int \<Rightarrow> int \<Rightarrow> 'e) \<Rightarrow> int \<Rightarrow> int \<Rightarrow> py_error + 'e" where
  "py_truediv td a b = (if b = 0 then Inl ZeroDivisionError else Inr (td a b))"

text \<open>The exact quotient, used where a concrete division is needed.\<close>

definition rat_div :: "int \<Rightarrow> int \<Rightarrow> rat" where
  "rat_div a b = of_int a / of_int b"

text \<open>
  A \<^verbatim>\<open>dict\<close> keeps its keys in insertion order; \<^verbatim>\<open>d[k] = v\<close> overwrites in place when
  \<open>k\<close> is present and appends otherwise.
\<close>

fun dict_set :: "('k \<times> 'v) list \<Rightarrow> 'k \<Rightarrow> 'v \<Rightarrow> ('k \<times> 'v) list" where
  "dict_set [] k v = [(k, v)]"
| "dict_set (p # ps) k v = (if fst p = k then (k, v) # ps else p # dict_set ps k v)"

subsection \<open>Slave connections\<close>

text \<open>
  A \<^verbatim>\<open>ShardMask\<close> and a \<^verbatim>\<open>Branch\<close> are represented by their integer \<^verbatim>\<open>value\<close>. The
  operations of \<^verbatim>\<open>quarkchain.core\<close> on them are collected in a record of functions.
\<close>

record core_ops =
  containShardId :: "int \<Rightarrow> nat \<Rightarrow> bool"      \<comment> \<open>\<^verbatim>\<open>ShardMask(m).containShardId(shardId)\<close>\<close>
  containBranch :: "int \<Rightarrow> int \<Rightarrow> bool"       \<comment> \<open>\<^verbatim>\<open>ShardMask(m).containBranch(Branch(v))\<close>\<close>
  maskHasOverlap :: "int \<Rightarrow> int \<Rightarrow> bool"      \<comment> \<open>\<^verbatim>\<open>ShardMask(m).hasOverlap(ShardMask(m'))\<close>\<close>
  branchCreate :: "nat \<Rightarrow> nat \<Rightarrow> int"         \<comment> \<open>\<^verbatim>\<open>Branch.create(shardSize, shardId).value\<close>\<close>
  getShardSize :: "int \<Rightarrow> nat"               \<comment> \<open>\<^verbatim>\<open>Branch(v).getShardSize()\<close>\<close>
  getShardId :: "int \<Rightarrow> nat"                 \<comment> \<open>\<^verbatim>\<open>Branch(v).getShardId()\<close>\<close>

record slave =
  slave_id :: string
  shardMaskList :: "int list"

record slaveInfo =
  info_id :: string
  info_ip :: int
  info_port :: int
  info_shardMaskList :: "int list"

definition hasShard :: "core_ops \<Rightarrow> slave \<Rightarrow> nat \<Rightarrow> bool" where
  "hasShard core s shardId = list_ex (\<lambda>shardMask. containShardId core shardMask shardId) (shardMaskList s)"

definition hasOverlap :: "core_ops \<Rightarrow> slave \<Rightarrow> int \<Rightarrow> bool" where
  "hasOverlap core s shardMask =
     list_ex (\<lambda>localShardMask. maskHasOverlap core localShardMask shardMask) (shardMaskList s)"

subsection \<open>Forwarding of slave frames\<close>

record metadata =
  md_branch :: int
  clusterPeerId :: "64 word"

text \<open>
  A connection is the null sink, a peer connection (\<^verbatim>\<open>P2PConnection\<close>, of which every
  peer of the network is an instance) or a connection of any other class.
\<close>

datatype ('p, 'c) connection = NULL_CONNECTION | P2PConnection 'p | OtherConnection 'c

record 'p network =
  iteratePeers :: "'p list"
  getPeerByClusterPeerId :: "64 word \<Rightarrow> 'p option"

datatype future = Pending | Result | Exception

record ('rs, 'rb, 'p) master =
  rootState :: 'rs
  network :: "'p network option"
  branchToSlaves :: "int \<rightharpoonup> slave list"
  slavePool :: "slave list"
  clusterActiveFuture :: future
  shutdownFuture :: future
  rootBlockUpdateQueue :: "'rb list"
  isUpdatingRootBlock :: bool
  artificialTxCount :: int

definition getPeer :: "('rs, 'rb, 'p) master \<Rightarrow> 64 word \<Rightarrow> 'p option" where
  "getPeer m cid = (case network m of None \<Rightarrow> None | Some n \<Rightarrow> getPeerByClusterPeerId n cid)"

text \<open>\<open>None\<close> is Python's \<^verbatim>\<open>None\<close>: no forwarding target, the frame is handled locally.\<close>

definition getConnectionToForward ::
  "('rs, 'rb, 'p) master \<Rightarrow> metadata \<Rightarrow> ('p, 'c) connection option" where
  "getConnectionToForward m md =
     (if clusterPeerId md = 0 then None
      else (case getPeer m (clusterPeerId md) of
              None \<Rightarrow> Some NULL_CONNECTION
            | Some peer \<Rightarrow> Some (P2PConnection peer)))"

fun validateConnection :: "('p, 'c) connection \<Rightarrow> bool" where
  "validateConnection NULL_CONNECTION = True"
| "validateConnection (P2PConnection p) = True"
| "validateConnection (OtherConnection c) = False"

subsection \<open>Shutdown and the handshake of bring-up\<close>

definition shutdown :: "('rs, 'rb, 'p) master \<Rightarrow> ('rs, 'rb, 'p) master" where
  "shutdown m =
     (let m1 = (if shutdownFuture m = Pending then m\<lparr>shutdownFuture := Result\<rparr> else m)
      in if clusterActiveFuture m1 = Pending then m1\<lparr>clusterActiveFuture := Exception\<rparr> else m1)"

text \<open>
  One iteration of \<^verbatim>\<open>__connectToSlaves\<close>, from the point where the stream to the slave is
  active; \<open>ping\<close> is what the slave answers to \<^verbatim>\<open>sendPing\<close>. The constructor of
  \<^verbatim>\<open>SlaveConnection\<close> checks that the mask list is not empty. Two mask lists are equal
  when they hold the same mask values in the same order. The pool is a Python set of
  distinct objects, kept here in insertion order.
\<close>

definition register_slave ::
  "core_ops \<Rightarrow> nat \<Rightarrow> slave \<Rightarrow> (int \<rightharpoonup> slave list) \<Rightarrow> nat \<Rightarrow> (int \<rightharpoonup> slave list)" where
  "register_slave core shardSize s b2s shardId =
     (if hasShard core s shardId
      then (let bv = branchCreate core shardSize shardId
            in b2s(bv \<mapsto> (case b2s bv of None \<Rightarrow> [] | Some l \<Rightarrow> l) @ [s]))
      else b2s)"

definition connectToSlave ::
  "core_ops \<Rightarrow> nat \<Rightarrow> (slaveInfo \<Rightarrow> string \<times> int list) \<Rightarrow>
   ('rs, 'rb, 'p) master \<Rightarrow> slaveInfo \<Rightarrow> py_error + ('rs, 'rb, 'p) master" where
  "connectToSlave core shardSize ping m si =
     (if \<not> length (info_shardMaskList si) > 0 then Inl AssertionError
      else
        (let s = \<lparr>slave_id = info_id si, shardMaskList = info_shardMaskList si\<rparr>;
             (pid, pmasks) = ping si;
             m1 = (if pid \<noteq> info_id si then shutdown m else m);
             m2 = (if pmasks \<noteq> info_shardMaskList si then shutdown m1 else m1)
         in Inr (m2\<lparr>slavePool := slavePool m2 @ [s],
                    branchToSlaves :=
                      foldl (register_slave core shardSize s) (branchToSlaves m2) [0..<shardSize]\<rparr>)))"

fun connectToSlaves ::
  "core_ops \<Rightarrow> nat \<Rightarrow> (slaveInfo \<Rightarrow> string \<times> int list) \<Rightarrow>
   ('rs, 'rb, 'p) master \<Rightarrow> slaveInfo list \<Rightarrow> py_error + ('rs, 'rb, 'p) master" where
  "connectToSlaves core shardSize ping m [] = Inr m"
| "connectToSlaves core shardSize ping m (si # sis) =
     (case connectToSlave core shardSize ping m si of
        Inl e \<Rightarrow> Inl e
      | Inr m' \<Rightarrow> connectToSlaves core shardSize ping m' sis)"

subsection \<open>Transactions\<close>

text \<open>
  \<^verbatim>\<open>MasterServer.addTransaction\<close>: \<open>txBranch\<close> is \<^verbatim>\<open>tx.code.getEvmTransaction().branchValue\<close>
  and \<open>resp s tx\<close> the error code of slave \<open>s\<close>'s answer to \<^verbatim>\<open>ADD_TRANSACTION_REQUEST\<close>.
  The result is the list of slaves the request went to, in order, and the returned flag.
\<close>

definition slave_addTransaction :: "(slave \<Rightarrow> 'tx \<Rightarrow> int) \<Rightarrow> slave \<Rightarrow> 'tx \<Rightarrow> bool" where
  "slave_addTransaction resp s tx = (resp s tx = 0)"

definition addTransaction ::
  "('tx \<Rightarrow> int) \<Rightarrow> (slave \<Rightarrow> 'tx \<Rightarrow> int) \<Rightarrow> ('rs, 'rb, 'p) master \<Rightarrow> 'tx \<Rightarrow> slave list \<times> bool" where
  "addTransaction txBranch resp m tx =
     (case branchToSlaves m (txBranch tx) of
        None \<Rightarrow> ([], False)
      | Some slaves \<Rightarrow>
          (slaves, list_all (\<lambda>r. r) (map (\<lambda>s. slave_addTransaction resp s tx) slaves)))"

subsection \<open>The root-block update queue\<close>

text \<open>
  What the drain does to the outside, in order: calls of \<^verbatim>\<open>rootState.addBlock\<close>,
  \<^verbatim>\<open>ADD_ROOT_BLOCK_REQUEST\<close>s written to slaves, and \<^verbatim>\<open>sendUpdatedTip\<close> on peers.
\<close>

datatype ('rb, 'p) event = AddBlock 'rb | AddRootBlockRequest slave 'rb | SendUpdatedTip 'p

text \<open>
  \<open>ab rs rBlock\<close> is \<^verbatim>\<open>rootState.addBlock(rBlock)\<close> in root state \<open>rs\<close>: the new root state
  and either the returned flag or the exception raised.

  \<^verbatim>\<open>updateTip or self.rootState.addBlock(rBlock)\<close>: Python's \<^verbatim>\<open>or\<close> evaluates its right
  operand only when the left one is false.
\<close>

definition updateTip_or_addBlock ::
  "('rs \<Rightarrow> 'rb \<Rightarrow> (py_error + bool) \<times> 'rs) \<Rightarrow> bool \<Rightarrow> 'rs \<Rightarrow> 'rb \<Rightarrow>
   (py_error + bool) \<times> 'rs \<times> ('rb, 'p) event list" where
  "updateTip_or_addBlock ab updateTip rs rBlock =
     (if updateTip then (Inr True, rs, [])
      else (let (r, rs') = ab rs rBlock in (r, rs', [AddBlock rBlock])))"

text \<open>
  The \<^verbatim>\<open>while\<close> loop of \<^verbatim>\<open>updateRooBlockAsync\<close> over the queue as it stands when the
  drain starts; \<open>resp s rBlock\<close> is the error code of slave \<open>s\<close>'s answer. The result is the
  exception that ended the loop, if any, the root state, \<^verbatim>\<open>updateTip\<close>, what is left of
  the queue and the events so far.
\<close>

fun drain_loop ::
  "('rs \<Rightarrow> 'rb \<Rightarrow> (py_error + bool) \<times> 'rs) \<Rightarrow> (slave \<Rightarrow> 'rb \<Rightarrow> int) \<Rightarrow> slave list \<Rightarrow>
   'rs \<Rightarrow> bool \<Rightarrow> 'rb list \<Rightarrow> ('rb, 'p) event list \<Rightarrow>
   py_error option \<times> 'rs \<times> bool \<times> 'rb list \<times> ('rb, 'p) event list" where
  "drain_loop ab resp pool rs updateTip [] tr = (None, rs, updateTip, [], tr)"
| "drain_loop ab resp pool rs updateTip (rBlock # q) tr =
     (case updateTip_or_addBlock ab updateTip rs rBlock of
        (Inl e, rs', evs) \<Rightarrow>
          (if e = ValueError then drain_loop ab resp pool rs' updateTip q (tr @ evs)
           else (Some e, rs', updateTip, q, tr @ evs))
      | (Inr u, rs', evs) \<Rightarrow>
          (let tr' = tr @ evs @ map (\<lambda>s. AddRootBlockRequest s rBlock) pool
           in if list_all (\<lambda>s. resp s rBlock = 0) pool
              then drain_loop ab resp pool rs' u q tr'
              else (Some AssertionError, rs', u, q, tr')))"

definition updateRooBlockAsync ::
  "('rs \<Rightarrow> 'rb \<Rightarrow> (py_error + bool) \<times> 'rs) \<Rightarrow> (slave \<Rightarrow> 'rb \<Rightarrow> int) \<Rightarrow>
   ('rs, 'rb, 'p) master \<Rightarrow> py_error option \<times> ('rs, 'rb, 'p) master \<times> ('rb, 'p) event list" where
  "updateRooBlockAsync ab resp m =
     (if \<not> isUpdatingRootBlock m then (Some AssertionError, m, [])
      else
        (case drain_loop ab resp (slavePool m) (rootState m) False (rootBlockUpdateQueue m) [] of
           (Some e, rs, updateTip, q, tr) \<Rightarrow>
             (Some e, m\<lparr>rootState := rs, rootBlockUpdateQueue := q\<rparr>, tr)
         | (None, rs, updateTip, q, tr) \<Rightarrow>
             (None,
              m\<lparr>rootState := rs, rootBlockUpdateQueue := q, isUpdatingRootBlock := False\<rparr>,
              tr @ (case network m of
                      None \<Rightarrow> []
                    | Some n \<Rightarrow> if updateTip then map SendUpdatedTip (iteratePeers n) else []))))"

text \<open>
  The drain as section 4.C of the specification words it, for comparison: every popped
  block is handed to \<^verbatim>\<open>add_block\<close>; a block that fails validation is skipped; every other
  block is broadcast to every slave.
\<close>

fun spec_drain_loop ::
  "('rs \<Rightarrow> 'rb \<Rightarrow> (py_error + bool) \<times> 'rs) \<Rightarrow> slave list \<Rightarrow>
   'rs \<Rightarrow> bool \<Rightarrow> 'rb list \<Rightarrow> ('rb, 'p) event list \<Rightarrow> 'rs \<times> bool \<times> ('rb, 'p) event list" where
  "spec_drain_loop ab pool rs updateTip [] tr = (rs, updateTip, tr)"
| "spec_drain_loop ab pool rs updateTip (rBlock # q) tr =
     (case ab rs rBlock of
        (Inl e, rs') \<Rightarrow> spec_drain_loop ab pool rs' updateTip q (tr @ [AddBlock rBlock])
      | (Inr u, rs') \<Rightarrow>
          spec_drain_loop ab pool rs' (updateTip \<or> u) q
            (tr @ [AddBlock rBlock] @ map (\<lambda>s. AddRootBlockRequest s rBlock) pool))"

text \<open>
  A root state that records the blocks added to it: block 0 fails validation, every other
  block moves the tip.
\<close>

definition recording_addBlock :: "nat list \<Rightarrow> nat \<Rightarrow> (py_error + bool) \<times> nat list" where
  "recording_addBlock rs rBlock =
     (if rBlock = 0 then (Inl ValueError, rs) else (Inr True, rs @ [rBlock]))"

subsection \<open>Blocks to mine\<close>

datatype ('rb, 'mb) mine_result = ROOT 'rb | MINOR 'mb | NONE

datatype rpc_event =
    GET_ECO_INFO_LIST_REQUEST slave
  | GET_UNCONFIRMED_HEADERS_REQUEST slave
  | GET_NEXT_BLOCK_TO_MINE_REQUEST slave

record ecoInfo =
  eco_branch :: int
  height :: int
  difficulty :: int
  coinbaseAmount :: int
  unconfirmedHeadersCoinbaseAmount :: int

record 'hdr headersInfo =
  hi_branch :: int
  headerList :: "'hdr list"

text \<open>
  Everything \<^verbatim>\<open>getNextBlockToMine\<close> obtains from elsewhere: the configuration, the root
  state, the operations on addresses and branches, the answers of the slaves (an error code
  and a payload; a block of \<open>None\<close> is a block that Python takes for false) and the values
  that successive calls of \<^verbatim>\<open>random.random()\<close> return.
\<close>

record ('e, 'rs, 'addr, 'hdr, 'rb, 'mb) mining_env =
  coreOps :: core_ops
  true_div :: "int \<Rightarrow> int \<Rightarrow> 'e"
  SHARD_SIZE :: nat
  PROOF_OF_PROGRESS_BLOCKS :: nat
  getNextBlockDifficulty :: "'rs \<Rightarrow> int"
  createBlockToMine :: "'rs \<Rightarrow> 'hdr list \<Rightarrow> 'addr \<Rightarrow> 'rb"
  addressInBranch :: "'addr \<Rightarrow> int option \<Rightarrow> py_error + 'addr"
  ecoInfoListResp :: "slave \<Rightarrow> int \<times> ecoInfo list"
  unconfirmedHeadersResp :: "slave \<Rightarrow> int \<times> 'hdr headersInfo list"
  nextBlockToMineResp :: "slave \<Rightarrow> int option \<Rightarrow> 'addr \<Rightarrow> int \<Rightarrow> int \<times> 'mb option"
  random_draws :: "nat \<Rightarrow> 'e"

text \<open>
  \<^verbatim>\<open>getSlaveConnection(branch)\<close>; the branch value is optional because
  \<^verbatim>\<open>getNextBlockToMine\<close> can pass \<^verbatim>\<open>Branch(None)\<close>. The keys of \<^verbatim>\<open>branchToSlaves\<close> are
  integers, so looking \<^verbatim>\<open>None\<close> up raises \<^verbatim>\<open>KeyError\<close>.
\<close>

definition getSlaveConnection :: "('rs, 'rb, 'p) master \<Rightarrow> int option \<Rightarrow> py_error + slave" where
  "getSlaveConnection m branch =
     (case branch of
        None \<Rightarrow> Inl KeyError
      | Some v \<Rightarrow>
          (case branchToSlaves m v of
             None \<Rightarrow> Inl KeyError
           | Some [] \<Rightarrow> Inl AssertionError
           | Some (s # _) \<Rightarrow> Inr s))"

definition getMinorBlockToMine ::
  "('e, 'rs, 'addr, 'hdr, 'rb, 'mb) mining_env \<Rightarrow> ('rs, 'rb, 'p) master \<Rightarrow> int option \<Rightarrow> 'addr \<Rightarrow>
   rpc_event list \<times> (py_error + 'mb option)" where
  "getMinorBlockToMine env m branch address =
     (case addressInBranch env address branch of
        Inl e \<Rightarrow> ([], Inl e)
      | Inr a \<Rightarrow>
          (case getSlaveConnection m branch of
             Inl e \<Rightarrow> ([], Inl e)
           | Inr s \<Rightarrow>
               (let (errorCode, block) = nextBlockToMineResp env s branch a (artificialTxCount m)
                in ([GET_NEXT_BLOCK_TO_MINE_REQUEST s],
                    Inr (if errorCode = 0 then block else None)))))"

text \<open>\<^verbatim>\<open>(None, None) if not block else (False, block)\<close>\<close>

definition minor_or_none ::
  "rpc_event list \<times> (py_error + 'mb option) \<Rightarrow> rpc_event list \<times> (py_error + ('rb, 'mb) mine_result)" where
  "minor_or_none r =
     (case r of
        (tr, Inl e) \<Rightarrow> (tr, Inl e)
      | (tr, Inr None) \<Rightarrow> (tr, Inr NONE)
      | (tr, Inr (Some block)) \<Rightarrow> (tr, Inr (MINOR block)))"

subsubsection \<open>Creating a root block, or falling back to a minor block\<close>

text \<open>
  The merge of the \<^verbatim>\<open>GET_UNCONFIRMED_HEADERS\<close> responses into \<^verbatim>\<open>shardIdToHeaderList\<close>;
  \<open>None\<close> is the early \<^verbatim>\<open>return (None, None)\<close>.
\<close>

fun merge_headersInfoList ::
  "core_ops \<Rightarrow> nat \<Rightarrow> (nat \<rightharpoonup> 'hdr list) \<Rightarrow> 'hdr headersInfo list \<Rightarrow> (nat \<rightharpoonup> 'hdr list) option" where
  "merge_headersInfoList c shardSize d [] = Some d"
| "merge_headersInfoList c shardSize d (hi # his) =
     (if getShardSize c (hi_branch hi) \<noteq> shardSize then None
      else merge_headersInfoList c shardSize (d(getShardId c (hi_branch hi) \<mapsto> headerList hi)) his)"

fun merge_header_responses ::
  "core_ops \<Rightarrow> nat \<Rightarrow> (nat \<rightharpoonup> 'hdr list) \<Rightarrow> (int \<times> 'hdr headersInfo list) list \<Rightarrow>
   (nat \<rightharpoonup> 'hdr list) option" where
  "merge_header_responses c shardSize d [] = Some d"
| "merge_header_responses c shardSize d ((errorCode, his) # rs) =
     (if errorCode \<noteq> 0 then None
      else (case merge_headersInfoList c shardSize d his of
              None \<Rightarrow> None
            | Some d' \<Rightarrow> merge_header_responses c shardSize d' rs))"

text \<open>\<^verbatim>\<open>shardIdToHeaderList.get(shardId, [])\<close>\<close>

definition headers_of :: "(nat \<rightharpoonup> 'hdr list) \<Rightarrow> nat \<Rightarrow> 'hdr list" where
  "headers_of d shardId = (case d shardId of None \<Rightarrow> [] | Some headers \<Rightarrow> headers)"

text \<open>The proof-of-progress loop over the shard ids still to visit.\<close>

fun proof_of_progress_loop ::
  "('e, 'rs, 'addr, 'hdr, 'rb, 'mb) mining_env \<Rightarrow> ('rs, 'rb, 'p) master \<Rightarrow> 'addr \<Rightarrow>
   (nat \<rightharpoonup> 'hdr list) \<Rightarrow> 'hdr list \<Rightarrow> nat list \<Rightarrow>
   rpc_event list \<times> (py_error + ('rb, 'mb) mine_result)" where
  "proof_of_progress_loop env m address d hl [] =
     ([], Inr (ROOT (createBlockToMine env (rootState m) hl address)))"
| "proof_of_progress_loop env m address d hl (shardId # ids) =
     (let headers = headers_of d shardId; hl' = hl @ headers
      in if length headers < PROOF_OF_PROGRESS_BLOCKS env
         then minor_or_none
                (getMinorBlockToMine env m
                   (Some (branchCreate (coreOps env) (SHARD_SIZE env) shardId)) address)
         else proof_of_progress_loop env m address d hl' ids)"

definition createRootBlockToMineOrFallbackToMinorBlock ::
  "('e, 'rs, 'addr, 'hdr, 'rb, 'mb) mining_env \<Rightarrow> ('rs, 'rb, 'p) master \<Rightarrow> 'addr \<Rightarrow>
   rpc_event list \<times> (py_error + ('rb, 'mb) mine_result)" where
  "createRootBlockToMineOrFallbackToMinorBlock env m address =
     (let tr = map GET_UNCONFIRMED_HEADERS_REQUEST (slavePool m);
          responses = map (unconfirmedHeadersResp env) (slavePool m)
      in case merge_header_responses (coreOps env) (SHARD_SIZE env) Map.empty responses of
           None \<Rightarrow> (tr, Inr NONE)
         | Some d \<Rightarrow>
             (let (tr', r) = proof_of_progress_loop env m address d [] [0..<SHARD_SIZE env]
              in (tr @ tr', r)))"

subsubsection \<open>Choosing the chain to mine\<close>

text \<open>
  The local variables of the selection loop; \<open>drawn\<close> counts the calls of
  \<^verbatim>\<open>random.random()\<close> made so far. A winner of \<open>None\<close> is Python's \<^verbatim>\<open>None\<close>.
\<close>

record 'e sel_state =
  branchValueWithMaxEco :: "int option"
  maxEco :: 'e
  dupEcoCount :: int
  blockHeight :: int
  drawn :: nat

text \<open>
  \<^verbatim>\<open>branchValueWithMaxEco > 0\<close>. Both places that evaluate it are reached only when the
  winner is not \<^verbatim>\<open>None\<close>.
\<close>

definition winner_is_shard :: "int option \<Rightarrow> bool" where
  "winner_is_shard w = (case w of None \<Rightarrow> False | Some v \<Rightarrow> v > 0)"

text \<open>\<^verbatim>\<open>shardMask and not shardMask.containBranch(Branch(branchValue))\<close>\<close>

definition masked_out :: "core_ops \<Rightarrow> int option \<Rightarrow> int \<Rightarrow> bool" where
  "masked_out c shardMask branchValue =
     (case shardMask of None \<Rightarrow> False | Some sm \<Rightarrow> \<not> containBranch c sm branchValue)"

text \<open>The body of the selection loop for one item of \<^verbatim>\<open>branchValueToEcoInfo\<close>.\<close>

definition select_step ::
  "(int \<Rightarrow> int \<Rightarrow> 'e::linorder) \<Rightarrow> core_ops \<Rightarrow> int option \<Rightarrow> bool \<Rightarrow> (nat \<Rightarrow> 'e) \<Rightarrow>
   'e sel_state \<Rightarrow> int \<times> ecoInfo \<Rightarrow> py_error + 'e sel_state" where
  "select_step td c shardMask randomizeOutput draws st item =
     (let branchValue = fst item; ei = snd item
      in if masked_out c shardMask branchValue then Inr st
         else
           (case py_truediv td (coinbaseAmount ei) (difficulty ei) of
              Inl e \<Rightarrow> Inl e
            | Inr eco \<Rightarrow>
                (if branchValueWithMaxEco st = None \<or> eco > maxEco st \<or>
                    (eco = maxEco st \<and> winner_is_shard (branchValueWithMaxEco st) \<and>
                     blockHeight st > height ei)
                 then Inr (st\<lparr>branchValueWithMaxEco := Some branchValue, maxEco := eco,
                              dupEcoCount := 1, blockHeight := height ei\<rparr>)
                 else if eco = maxEco st \<and> randomizeOutput
                 then
                   (if winner_is_shard (branchValueWithMaxEco st) \<and> blockHeight st < height ei
                    then Inr st
                    else
                      (let dup = dupEcoCount st + 1
                       in case py_truediv td 1 dup of
                            Inl e \<Rightarrow> Inl e
                          | Inr threshold \<Rightarrow>
                              (if draws (drawn st) < threshold
                               then Inr (st\<lparr>branchValueWithMaxEco := Some branchValue,
                                            maxEco := eco, dupEcoCount := dup,
                                            drawn := Suc (drawn st)\<rparr>)
                               else Inr (st\<lparr>dupEcoCount := dup, drawn := Suc (drawn st)\<rparr>))))
                 else Inr st)))"

fun select_loop ::
  "(int \<Rightarrow> int \<Rightarrow> 'e::linorder) \<Rightarrow> core_ops \<Rightarrow> int option \<Rightarrow> bool \<Rightarrow> (nat \<Rightarrow> 'e) \<Rightarrow>
   'e sel_state \<Rightarrow> (int \<times> ecoInfo) list \<Rightarrow> py_error + 'e sel_state" where
  "select_loop td c shardMask randomizeOutput draws st [] = Inr st"
| "select_loop td c shardMask randomizeOutput draws st (item # items) =
     (case select_step td c shardMask randomizeOutput draws st item of
        Inl e \<Rightarrow> Inl e
      | Inr st' \<Rightarrow> select_loop td c shardMask randomizeOutput draws st' items)"

text \<open>The merge of the \<^verbatim>\<open>GET_ECO_INFO_LIST\<close> responses into \<^verbatim>\<open>branchValueToEcoInfo\<close>.\<close>

fun merge_ecoInfoList :: "(int \<times> ecoInfo) list \<Rightarrow> ecoInfo list \<Rightarrow> (int \<times> ecoInfo) list" where
  "merge_ecoInfoList d [] = d"
| "merge_ecoInfoList d (ei # eis) = merge_ecoInfoList (dict_set d (eco_branch ei) ei) eis"

fun merge_eco_responses ::
  "(int \<times> ecoInfo) list \<Rightarrow> (int \<times> ecoInfo list) list \<Rightarrow> (int \<times> ecoInfo) list option" where
  "merge_eco_responses d [] = Some d"
| "merge_eco_responses d ((errorCode, eis) # rs) =
     (if errorCode \<noteq> 0 then None else merge_eco_responses (merge_ecoInfoList d eis) rs)"

text \<open>The accumulation of \<^verbatim>\<open>rootCoinbaseAmount\<close>, followed by \<^verbatim>\<open>// 2\<close>.\<close>

fun sum_unconfirmed :: "int \<Rightarrow> (int \<times> ecoInfo) list \<Rightarrow> int" where
  "sum_unconfirmed acc [] = acc"
| "sum_unconfirmed acc (item # items) =
     sum_unconfirmed (acc + unconfirmedHeadersCoinbaseAmount (snd item)) items"

definition rootCoinbaseAmount :: "(int \<times> ecoInfo) list \<Rightarrow> int" where
  "rootCoinbaseAmount d = sum_unconfirmed 0 d div 2"

text \<open>\<^verbatim>\<open>rootCoinbaseAmount / self.rootState.getNextBlockDifficulty()\<close>\<close>

definition root_eco ::
  "(int \<Rightarrow> int \<Rightarrow> 'e) \<Rightarrow> int \<Rightarrow> (int \<times> ecoInfo) list \<Rightarrow> py_error + 'e" where
  "root_eco td rootDifficulty d = py_truediv td (rootCoinbaseAmount d) rootDifficulty"

text \<open>The slaves that are sent \<^verbatim>\<open>GET_ECO_INFO_LIST_REQUEST\<close>.\<close>

definition eco_slaves :: "core_ops \<Rightarrow> int option \<Rightarrow> slave list \<Rightarrow> slave list" where
  "eco_slaves c shardMask pool =
     filter (\<lambda>s. \<not> (case shardMask of None \<Rightarrow> False | Some sm \<Rightarrow> \<not> hasOverlap c s sm)) pool"

text \<open>
  From the merged dictionary to the winner: the initial values of the loop variables and
  the loop.
\<close>

definition select_winner ::
  "(int \<Rightarrow> int \<Rightarrow> 'e::linorder) \<Rightarrow> core_ops \<Rightarrow> int \<Rightarrow> int option \<Rightarrow> bool \<Rightarrow> (nat \<Rightarrow> 'e) \<Rightarrow>
   (int \<times> ecoInfo) list \<Rightarrow> py_error + 'e sel_state" where
  "select_winner td c rootDifficulty shardMask randomizeOutput draws d =
     (case root_eco td rootDifficulty d of
        Inl e \<Rightarrow> Inl e
      | Inr eco0 \<Rightarrow>
          select_loop td c shardMask randomizeOutput draws
            \<lparr>branchValueWithMaxEco = (if shardMask = None then Some 0 else None),
             maxEco = eco0, dupEcoCount = 1, blockHeight = 0, drawn = 0\<rparr> d)"

definition getNextBlockToMine ::
  "('e::linorder, 'rs, 'addr, 'hdr, 'rb, 'mb) mining_env \<Rightarrow> ('rs, 'rb, 'p) master \<Rightarrow>
   'addr \<Rightarrow> int \<Rightarrow> bool \<Rightarrow> rpc_event list \<times> (py_error + ('rb, 'mb) mine_result)" where
  "getNextBlockToMine env m address shardMaskValue randomizeOutput =
     (let shardMask = (if shardMaskValue = 0 then None else Some shardMaskValue);
          polled = eco_slaves (coreOps env) shardMask (slavePool m);
          tr = map GET_ECO_INFO_LIST_REQUEST polled
      in case merge_eco_responses [] (map (ecoInfoListResp env) polled) of
           None \<Rightarrow> (tr, Inr NONE)
         | Some d \<Rightarrow>
             (case select_winner (true_div env) (coreOps env)
                     (getNextBlockDifficulty env (rootState m)) shardMask randomizeOutput
                     (random_draws env) d of
                Inl e \<Rightarrow> (tr, Inl e)
              | Inr st \<Rightarrow>
                  (let (tr', r) =
                         (if branchValueWithMaxEco st = Some 0
                          then createRootBlockToMineOrFallbackToMinorBlock env m address
                          else minor_or_none
                                 (getMinorBlockToMine env m (branchValueWithMaxEco st) address))
                   in (tr @ tr', r))))"

subsection \<open>A cluster of two shards\<close>

text \<open>
  A small cluster on which the definitions are run: shard 0 has branch value 2 and is
  served by \<open>slave1\<close>, shard 1 has branch value 3 and is served by \<open>slave2\<close>; the mask 1
  covers both shards, the masks 2 and 3 one shard each. One peer is connected, under the
  cluster peer id 7.
\<close>

definition slave1 :: slave where
  "slave1 = \<lparr>slave_id = ''s1'', shardMaskList = [2]\<rparr>"

definition slave2 :: slave where
  "slave2 = \<lparr>slave_id = ''s2'', shardMaskList = [3]\<rparr>"

definition two_shard_core :: core_ops where
  "two_shard_core =
     \<lparr>containShardId = (\<lambda>m shardId. m = 1 \<or> (m = 2 \<and> shardId = 0) \<or> (m = 3 \<and> shardId = 1)),
      containBranch = (\<lambda>m v. (v = 2 \<or> v = 3) \<and> (m = 1 \<or> m = v)),
      maskHasOverlap = (\<lambda>m m'. m = 1 \<or> m' = 1 \<or> m = m'),
      branchCreate = (\<lambda>shardSize shardId. int shardSize + int shardId),
      getShardSize = (\<lambda>v. 2),
      getShardId = (\<lambda>v. nat (v - 2))\<rparr>"

definition two_shard_master :: "(nat list, nat, string) master" where
  "two_shard_master =
     \<lparr>rootState = [],
      network = Some \<lparr>iteratePeers = [''peerA''],
                      getPeerByClusterPeerId = (\<lambda>c. if c = 7 then Some ''peerA'' else None)\<rparr>,
      branchToSlaves = (\<lambda>v. if v = 2 then Some [slave1] else if v = 3 then Some [slave2] else None),
      slavePool = [slave1, slave2],
      clusterActiveFuture = Pending,
      shutdownFuture = Pending,
      rootBlockUpdateQueue = [],
      isUpdatingRootBlock = False,
      artificialTxCount = 0\<rparr>"

text \<open>
  Both shards report the given eco infos and three unconfirmed headers each; the minor
  block a slave offers is numbered by its branch value; a root block is represented by the
  number of headers it confirms. The root difficulty is 10, exact division stands for
  the float division, and every random draw is \<open>1/4\<close>.
\<close>

definition two_shard_env ::
  "ecoInfo list \<Rightarrow> ecoInfo list \<Rightarrow> (rat, nat list, nat, nat, nat, int) mining_env" where
  "two_shard_env eis1 eis2 =
     \<lparr>coreOps = two_shard_core,
      true_div = rat_div,
      SHARD_SIZE = 2,
      PROOF_OF_PROGRESS_BLOCKS = 1,
      getNextBlockDifficulty = (\<lambda>rs. 10),
      createBlockToMine = (\<lambda>rs hl address. length hl),
      addressInBranch = (\<lambda>address b. case b of None \<Rightarrow> Inl TypeError | Some v \<Rightarrow> Inr address),
      ecoInfoListResp = (\<lambda>s. if s = slave1 then (0, eis1) else (0, eis2)),
      unconfirmedHeadersResp =
        (\<lambda>s. if s = slave1 then (0, [\<lparr>hi_branch = 2, headerList = [10, 11, 12]\<rparr>])
              else (0, [\<lparr>hi_branch = 3, headerList = [20, 21, 22]\<rparr>])),
      nextBlockToMineResp = (\<lambda>s branch address n. (0, branch)),
      random_draws = (\<lambda>i. 1 / 4)\<rparr>"

text \<open>
  An eco info from its branch value, height, difficulty, coinbase amount and the coinbase
  amount of its unconfirmed headers, in this order.
\<close>

definition mkEcoInfo :: "int \<Rightarrow> int \<Rightarrow> int \<Rightarrow> int \<Rightarrow> int \<Rightarrow> ecoInfo" where
  "mkEcoInfo b h d c u =
     \<lparr>eco_branch = b, height = h, difficulty = d, coinbaseAmount = c,
      unconfirmedHeadersCoinbaseAmount = u\<rparr>"

section \<open>Properties\<close>

text \<open>
  The definitions to unfold when a function is run on the two-shard cluster.
\<close>

lemmas run_defs = select_winner_def root_eco_def rootCoinbaseAmount_def select_step_def
      py_truediv_def rat_div_def masked_out_def winner_is_shard_def mkEcoInfo_def two_shard_core_def
      two_shard_env_def two_shard_master_def

lemmas mine_defs = getNextBlockToMine_def eco_slaves_def hasOverlap_def slave1_def slave2_def
  minor_or_none_def getMinorBlockToMine_def getSlaveConnection_def
  createRootBlockToMineOrFallbackToMinorBlock_def headers_of_def

subsection \<open>Forwarding\<close>

text \<open>
  C9. A frame whose cluster peer id is 0 has no forwarding target, so it is handled locally;
  a frame with any other id always has one. The target is read off the registry of the
  network: when the network holds a peer under the id of the frame, the target is the
  connection of exactly that peer; when the network holds no peer under that id, or the
  master has no network yet, the target is the null sink. \<^verbatim>\<open>getPeer\<close> is the lookup of the
  id in the registry of the network, and nothing when there is no network. Every target
  that is produced is accepted by \<^verbatim>\<open>validateConnection\<close>, which accepts exactly the null sink
  and peer connections.
\<close>

theorem forwarding_target:
  "(getConnectionToForward m md = None \<longleftrightarrow> clusterPeerId md = 0) \<and>
   (clusterPeerId md \<noteq> 0 \<longrightarrow>
      (\<forall>n p. network m = Some n \<and> getPeerByClusterPeerId n (clusterPeerId md) = Some p \<longrightarrow>
              getConnectionToForward m md = Some (P2PConnection p)) \<and>
      (\<forall>n. network m = Some n \<and> getPeerByClusterPeerId n (clusterPeerId md) = None \<longrightarrow>
            getConnectionToForward m md = Some NULL_CONNECTION) \<and>
      (network m = None \<longrightarrow> getConnectionToForward m md = Some NULL_CONNECTION)) \<and>
   (\<forall>cid. getPeer m cid =
            (case network m of None \<Rightarrow> None | Some n \<Rightarrow> getPeerByClusterPeerId n cid)) \<and>
   (\<forall>c. getConnectionToForward m md = Some c \<longrightarrow> validateConnection c) \<and>
   (validateConnection c' \<longleftrightarrow> c' = NULL_CONNECTION \<or> (\<exists>p. c' = P2PConnection p))"
  by (cases c') (auto simp: getConnectionToForward_def getPeer_def split: option.splits)

text \<open>
  In the two-shard cluster the network holds \<open>peerA\<close> under the id 7 and nobody under
  the id 9: a frame addressed to 7 goes to \<open>peerA\<close>, a frame addressed to 9 goes to the
  null sink, and so does a frame addressed to 7 on a master without a network.
\<close>

theorem forwarding_target_witness:
  "getPeerByClusterPeerId (the (network two_shard_master)) 7 = Some ''peerA'' \<and>
   getConnectionToForward two_shard_master \<lparr>md_branch = 2, clusterPeerId = 7\<rparr> =
     Some (P2PConnection ''peerA'' :: (string, unit) connection) \<and>
   getPeerByClusterPeerId (the (network two_shard_master)) 9 = None \<and>
   getConnectionToForward two_shard_master \<lparr>md_branch = 2, clusterPeerId = 9\<rparr> =
     Some (NULL_CONNECTION :: (string, unit) connection) \<and>
   getConnectionToForward (two_shard_master\<lparr>network := None\<rparr>)
     \<lparr>md_branch = 2, clusterPeerId = 7\<rparr> =
     Some (NULL_CONNECTION :: (string, unit) connection) \<and>
   validateConnection (P2PConnection ''peerA'' :: (string, unit) connection)"
proof -
  let ?md7 = "\<lparr>md_branch = 2, clusterPeerId = 7\<rparr>"
  let ?md9 = "\<lparr>md_branch = 2, clusterPeerId = 9\<rparr>"
  let ?n = "\<lparr>iteratePeers = [''peerA''],
            getPeerByClusterPeerId = (\<lambda>c::64 word. if c = 7 then Some ''peerA'' else None)\<rparr>"
  let ?m0 = "two_shard_master\<lparr>network := None\<rparr>"
  have net: "network two_shard_master = Some ?n"
    by (simp add: two_shard_master_def)
  have nz7: "clusterPeerId ?md7 \<noteq> 0" and nz9: "clusterPeerId ?md9 \<noteq> 0"
    by simp_all
  have reg7: "network two_shard_master = Some ?n \<and>
      getPeerByClusterPeerId ?n (clusterPeerId ?md7) = Some ''peerA''"
    using net by simp
  have reg9: "network two_shard_master = Some ?n \<and>
      getPeerByClusterPeerId ?n (clusterPeerId ?md9) = None"
    using net by simp
  have nonet: "network ?m0 = None"
    by simp
  note T7 = forwarding_target[of two_shard_master ?md7
      "NULL_CONNECTION :: (string, unit) connection"]
  note T9 = forwarding_target[of two_shard_master ?md9
      "NULL_CONNECTION :: (string, unit) connection"]
  note T0 = forwarding_target[of ?m0 ?md7 "NULL_CONNECTION :: (string, unit) connection"]
  from T7 nz7 reg7
  have fwd7: "getConnectionToForward two_shard_master ?md7 =
      Some (P2PConnection ''peerA'' :: (string, unit) connection)"
    by blast
  from T9 nz9 reg9
  have fwd9: "getConnectionToForward two_shard_master ?md9 =
      Some (NULL_CONNECTION :: (string, unit) connection)"
    by blast
  from T0 nz7 nonet
  have fwd0: "getConnectionToForward ?m0 ?md7 =
      Some (NULL_CONNECTION :: (string, unit) connection)"
    by blast
  from T7 fwd7 have "validateConnection (P2PConnection ''peerA'' :: (string, unit) connection)"
    by blast
  with net fwd7 fwd9 fwd0 show ?thesis by simp
qed

subsection \<open>Shutdown\<close>

lemma shutdownFuture_shutdown:
  "shutdownFuture (shutdown m) = (if shutdownFuture m = Pending then Result else shutdownFuture m)"
  by (simp add: shutdown_def Let_def)

lemma clusterActiveFuture_shutdown:
  "clusterActiveFuture (shutdown m) =
     (if clusterActiveFuture m = Pending then Exception else clusterActiveFuture m)"
  by (simp add: shutdown_def Let_def)

lemma shutdown_resolved:
  "shutdownFuture m \<noteq> Pending \<Longrightarrow> clusterActiveFuture m \<noteq> Pending \<Longrightarrow> shutdown m = m"
  by (simp add: shutdown_def Let_def)

lemma shutdown_idem: "shutdown (shutdown m) = shutdown m"
  by (rule shutdown_resolved) (simp_all add: shutdownFuture_shutdown clusterActiveFuture_shutdown)

lemma connectToSlave_futures:
  assumes "connectToSlave c n ping m si = Inr m'"
  shows "shutdownFuture m' =
           (if ping si \<noteq> (info_id si, info_shardMaskList si) then shutdownFuture (shutdown m)
            else shutdownFuture m)"
    and "clusterActiveFuture m' =
           (if ping si \<noteq> (info_id si, info_shardMaskList si) then clusterActiveFuture (shutdown m)
            else clusterActiveFuture m)"
  using assms
  by (cases "ping si";
      auto simp: connectToSlave_def Let_def shutdown_idem split: if_splits)+

lemma connectToSlaves_keeps:
  assumes "connectToSlaves c n ping m sis = Inr m'"
  shows "(shutdownFuture m \<noteq> Pending \<longrightarrow> shutdownFuture m' = shutdownFuture m) \<and>
         (clusterActiveFuture m \<noteq> Pending \<longrightarrow> clusterActiveFuture m' = clusterActiveFuture m)"
  using assms
proof (induction sis arbitrary: m)
  case Nil
  then show ?case by simp
next
  case (Cons si sis)
  then obtain m1 where m1: "connectToSlave c n ping m si = Inr m1"
    and rest: "connectToSlaves c n ping m1 sis = Inr m'"
    by (auto split: sum.splits)
  from connectToSlave_futures[OF m1] Cons.IH[OF rest] show ?case
    by (auto simp: shutdownFuture_shutdown clusterActiveFuture_shutdown split: if_splits)
qed

lemma connectToSlaves_mismatch:
  assumes "connectToSlaves c n ping m sis = Inr m'"
    and "si \<in> set sis"
    and "ping si \<noteq> (info_id si, info_shardMaskList si)"
  shows "(shutdownFuture m = Pending \<longrightarrow> shutdownFuture m' = Result) \<and>
         (clusterActiveFuture m = Pending \<longrightarrow> clusterActiveFuture m' = Exception)"
  using assms
proof (induction sis arbitrary: m)
  case Nil
  then show ?case by simp
next
  case (Cons si0 sis)
  then obtain m1 where m1: "connectToSlave c n ping m si0 = Inr m1"
    and rest: "connectToSlaves c n ping m1 sis = Inr m'"
    by (auto split: sum.splits)
  show ?case
  proof (cases "ping si0 \<noteq> (info_id si0, info_shardMaskList si0)")
    case True
    with connectToSlave_futures[OF m1] connectToSlaves_keeps[OF rest] show ?thesis
      by (auto simp: shutdownFuture_shutdown clusterActiveFuture_shutdown split: if_splits)
  next
    case False
    with Cons.prems have "si \<in> set sis" by auto
    from Cons.IH[OF rest this Cons.prems(3)] connectToSlave_futures[OF m1] False
    show ?thesis by auto
  qed
qed

text \<open>
  C8. If the answer of some configured slave to the ping differs from its \<^verbatim>\<open>SlaveInfo\<close> in
  the id or in the mask list, then after \<^verbatim>\<open>__connectToSlaves\<close> the shutdown future is
  resolved and the readiness future is no longer pending: it holds the error whenever the
  cluster had not become ready before. The iteration with the mismatch is the iteration of
  a matching slave run on the master after \<^verbatim>\<open>shutdown\<close>. \<^verbatim>\<open>shutdown\<close> itself resolves
  the shutdown future, rejects a pending readiness future, leaves a resolved one alone, and
  changes nothing when it runs again or when both futures are resolved already.
\<close>

theorem handshake_mismatch_shutdown:
  "(connectToSlaves c n ping m sis = Inr m' \<and> si \<in> set sis \<and>
      ping si \<noteq> (info_id si, info_shardMaskList si) \<longrightarrow>
        shutdownFuture m' \<noteq> Pending \<and> clusterActiveFuture m' \<noteq> Pending \<and>
        (shutdownFuture m = Pending \<longrightarrow> shutdownFuture m' = Result) \<and>
        (clusterActiveFuture m = Pending \<longrightarrow> clusterActiveFuture m' = Exception)) \<and>
   (ping si \<noteq> (info_id si, info_shardMaskList si) \<longrightarrow>
      connectToSlave c n ping m si =
      connectToSlave c n (\<lambda>i. (info_id i, info_shardMaskList i)) (shutdown m) si) \<and>
   shutdownFuture (shutdown m) \<noteq> Pending \<and>
   (shutdownFuture m = Pending \<longrightarrow> shutdownFuture (shutdown m) = Result) \<and>
   (clusterActiveFuture m = Pending \<longrightarrow> clusterActiveFuture (shutdown m) = Exception) \<and>
   (clusterActiveFuture m \<noteq> Pending \<longrightarrow>
      clusterActiveFuture (shutdown m) = clusterActiveFuture m) \<and>
   shutdown (shutdown m) = shutdown m \<and>
   (shutdownFuture m \<noteq> Pending \<and> clusterActiveFuture m \<noteq> Pending \<longrightarrow> shutdown m = m)"
proof -
  have loop: "shutdownFuture m' \<noteq> Pending \<and> clusterActiveFuture m' \<noteq> Pending \<and>
        (shutdownFuture m = Pending \<longrightarrow> shutdownFuture m' = Result) \<and>
        (clusterActiveFuture m = Pending \<longrightarrow> clusterActiveFuture m' = Exception)"
    if run: "connectToSlaves c n ping m sis = Inr m'" and mem: "si \<in> set sis"
      and bad: "ping si \<noteq> (info_id si, info_shardMaskList si)"
    using connectToSlaves_mismatch[OF run mem bad] connectToSlaves_keeps[OF run]
    by (cases "shutdownFuture m"; cases "clusterActiveFuture m"; simp)
  have one: "connectToSlave c n ping m si =
      connectToSlave c n (\<lambda>i. (info_id i, info_shardMaskList i)) (shutdown m) si"
    if "ping si \<noteq> (info_id si, info_shardMaskList si)"
    using that by (cases "ping si") (auto simp: connectToSlave_def Let_def shutdown_idem)
  show ?thesis
    using loop one
    by (simp add: shutdownFuture_shutdown clusterActiveFuture_shutdown shutdown_idem
        shutdown_resolved)
qed

text \<open>
  The configuration declares a slave \<open>s1\<close> and the slave answers with the id \<open>s2\<close>.
\<close>

theorem handshake_mismatch_shutdown_witness:
  "\<exists>m'. connectToSlaves two_shard_core 2 (\<lambda>i. (''s2'', [2])) two_shard_master
           [\<lparr>info_id = ''s1'', info_ip = 1, info_port = 2, info_shardMaskList = [2]\<rparr>] = Inr m' \<and>
        shutdownFuture m' = Result \<and> clusterActiveFuture m' = Exception"
proof -
  let ?si = "\<lparr>info_id = ''s1'', info_ip = 1, info_port = 2, info_shardMaskList = [2]\<rparr>"
  let ?ping = "\<lambda>i::slaveInfo. (''s2'', [2::int])"
  obtain m' where run: "connectToSlaves two_shard_core 2 ?ping two_shard_master [?si] = Inr m'"
    by (simp add: connectToSlave_def Let_def)
  have pend: "shutdownFuture two_shard_master = Pending"
    "clusterActiveFuture two_shard_master = Pending"
    by (simp_all add: two_shard_master_def)
  have hyp: "connectToSlaves two_shard_core 2 ?ping two_shard_master [?si] = Inr m' \<and>
      ?si \<in> set [?si] \<and> ?ping ?si \<noteq> (info_id ?si, info_shardMaskList ?si)"
    using run by simp
  from handshake_mismatch_shutdown[of two_shard_core 2 ?ping two_shard_master "[?si]" m' ?si]
    hyp pend
  have "shutdownFuture m' = Result \<and> clusterActiveFuture m' = Exception"
    by blast
  with run show ?thesis by blast
qed

subsection \<open>Transactions\<close>

text \<open>
  C7. \<^verbatim>\<open>addTransaction\<close> returns \<^verbatim>\<open>False\<close> and contacts no slave when the branch of the
  transaction is not a key of \<^verbatim>\<open>branchToSlaves\<close>; otherwise the transaction goes to every
  slave of the branch's list, in order, and the result is \<^verbatim>\<open>True\<close> exactly when every one
  of them answers with error code 0.
\<close>

theorem addTransaction_fanout:
  "(branchToSlaves m (txBranch tx) = None \<longrightarrow> addTransaction txBranch resp m tx = ([], False)) \<and>
   (\<forall>slaves. branchToSlaves m (txBranch tx) = Some slaves \<longrightarrow>
      fst (addTransaction txBranch resp m tx) = slaves \<and>
      (snd (addTransaction txBranch resp m tx) \<longleftrightarrow> (\<forall>s \<in> set slaves. resp s tx = 0)))"
  by (auto simp: addTransaction_def slave_addTransaction_def list_all_iff)

text \<open>
  In the two-shard cluster a transaction of branch 2 goes to \<open>slave1\<close>; one of the
  unknown branch 9 goes nowhere.
\<close>

theorem addTransaction_fanout_witness:
  "branchToSlaves two_shard_master 2 = Some [slave1] \<and>
   addTransaction (\<lambda>tx. 2) (\<lambda>s tx. 0) two_shard_master (5::nat) = ([slave1], True) \<and>
   branchToSlaves two_shard_master 9 = None \<and>
   addTransaction (\<lambda>tx. 9) (\<lambda>s tx. 0) two_shard_master (5::nat) = ([], False)"
  using addTransaction_fanout[of two_shard_master "\<lambda>tx. 2" "5::nat" "\<lambda>s tx. 0"]
    addTransaction_fanout[of two_shard_master "\<lambda>tx. 9" "5::nat" "\<lambda>s tx. 0"]
  by (simp add: two_shard_master_def prod_eq_iff)

subsection \<open>The drain of the root-block queue\<close>

text \<open>
  As long as no block moves the tip, and with slaves that accept every block, the loop of
  the code and the drain of the specification do the same.
\<close>

lemma drain_loop_without_tip_update:
  assumes quiet: "\<forall>rs b. fst (ab rs b) = Inr False \<or> fst (ab rs b) = Inl ValueError"
    and ok: "\<forall>s \<in> set pool. \<forall>b. resp s b = 0"
  shows "drain_loop ab resp pool rs False q tr =
           (case spec_drain_loop ab pool rs False q tr of
              (rs', updateTip, tr') \<Rightarrow> (None, rs', updateTip, [], tr'))"
proof (induction q arbitrary: rs tr)
  case Nil
  show ?case by simp
next
  case (Cons rBlock q)
  obtain r rs' where ab: "ab rs rBlock = (r, rs')" by (cases "ab rs rBlock")
  from quiet have "fst (ab rs rBlock) = Inr False \<or> fst (ab rs rBlock) = Inl ValueError"
    by blast
  with ab have r: "r = Inr False \<or> r = Inl ValueError" by simp
  from ok have all: "list_all (\<lambda>s. resp s rBlock = 0) pool"
    by (simp add: list_all_iff)
  from r show ?case
    by (auto simp: updateTip_or_addBlock_def ab all Cons.IH)
qed

text \<open>
  C1. The specification has \<^verbatim>\<open>add_block\<close> called on every popped block and a block that
  fails validation skipped. The code evaluates \<^verbatim>\<open>updateTip or self.rootState.addBlock(rBlock)\<close>,
  so once a block has moved the tip, \<^verbatim>\<open>addBlock\<close> is not called for the rest of the drain.
  With the queue \<open>[1, 0, 2]\<close>, where block 0 is invalid and blocks 1 and 2 move the tip,
  the code adds only block 1 to the root state and broadcasts all three blocks, the invalid
  one included; the drain of the specification adds 1 and 2 and broadcasts 1 and 2.
\<close>

theorem drain_short_circuits_addBlock:
  "updateRooBlockAsync recording_addBlock (\<lambda>s rBlock. 0)
     (two_shard_master\<lparr>rootBlockUpdateQueue := [1, 0, 2], isUpdatingRootBlock := True\<rparr>) =
     (None,
      two_shard_master\<lparr>rootState := [1], rootBlockUpdateQueue := [], isUpdatingRootBlock := False\<rparr>,
      [AddBlock 1, AddRootBlockRequest slave1 1, AddRootBlockRequest slave2 1,
       AddRootBlockRequest slave1 0, AddRootBlockRequest slave2 0,
       AddRootBlockRequest slave1 2, AddRootBlockRequest slave2 2,
       SendUpdatedTip ''peerA'']) \<and>
   spec_drain_loop recording_addBlock [slave1, slave2] [] False [1, 0, 2] [] =
     ([1, 2], True,
      [AddBlock 1, AddRootBlockRequest slave1 1, AddRootBlockRequest slave2 1,
       AddBlock 0,
       AddBlock 2, AddRootBlockRequest slave1 2, AddRootBlockRequest slave2 2 :: (nat, string) event])"
  by (simp add: updateRooBlockAsync_def updateTip_or_addBlock_def recording_addBlock_def
      two_shard_master_def)

subsection \<open>Root block or fallback\<close>

lemma proof_of_progress_loop_all:
  "\<forall>sid \<in> set ids. \<not> length (headers_of d sid) < PROOF_OF_PROGRESS_BLOCKS env \<Longrightarrow>
   proof_of_progress_loop env m address d hl ids =
     ([], Inr (ROOT (createBlockToMine env (rootState m)
                       (hl @ concat (map (headers_of d) ids)) address)))"
  by (induction ids arbitrary: hl) (simp_all add: Let_def)

lemma proof_of_progress_loop_first:
  "\<forall>j \<in> set pre. \<not> length (headers_of d j) < PROOF_OF_PROGRESS_BLOCKS env \<Longrightarrow>
   length (headers_of d sid) < PROOF_OF_PROGRESS_BLOCKS env \<Longrightarrow>
   proof_of_progress_loop env m address d hl (pre @ sid # post) =
     minor_or_none (getMinorBlockToMine env m
                      (Some (branchCreate (coreOps env) (SHARD_SIZE env) sid)) address)"
  by (induction pre arbitrary: hl) (simp_all add: Let_def)

lemma minor_or_none_response:
  assumes "branchToSlaves m bv = Some (s # rest)"
    and "addressInBranch env address (Some bv) = Inr a"
  shows "minor_or_none (getMinorBlockToMine env m (Some bv) address) =
           ([GET_NEXT_BLOCK_TO_MINE_REQUEST s],
            Inr (case nextBlockToMineResp env s (Some bv) a (artificialTxCount m) of
                   (errorCode, block) \<Rightarrow>
                     if errorCode = 0
                     then (case block of None \<Rightarrow> NONE | Some b \<Rightarrow> MINOR b)
                     else NONE))"
  using assms
  by (auto simp: minor_or_none_def getMinorBlockToMine_def getSlaveConnection_def
      split: prod.splits option.splits)

lemma getNextBlockToMine_root:
  assumes "merge_eco_responses []
             (map (ecoInfoListResp env)
                (eco_slaves (coreOps env) (if v = 0 then None else Some v) (slavePool m))) = Some d"
    and "select_winner (true_div env) (coreOps env) (getNextBlockDifficulty env (rootState m))
           (if v = 0 then None else Some v) randomizeOutput (random_draws env) d = Inr st"
    and "branchValueWithMaxEco st = Some 0"
  shows "snd (getNextBlockToMine env m address v randomizeOutput) =
         snd (createRootBlockToMineOrFallbackToMinorBlock env m address)"
  using assms by (simp add: getNextBlockToMine_def Let_def case_prod_beta)

text \<open>
  C5. When the winner of the selection is the root, whose branch value is 0, the result of
  \<^verbatim>\<open>getNextBlockToMine\<close> is that of the root-creation step.
  Once the headers of the slaves are merged, the root-creation step visits the shard
  ids \<open>0, \<dots>, SHARD_SIZE - 1\<close> in ascending order. For the first shard id whose header
  count is below \<^verbatim>\<open>PROOF_OF_PROGRESS_BLOCKS\<close> the result is that of the minor-block request
  on the branch of that shard; when no shard is below the threshold the result is the root
  block that \<^verbatim>\<open>createBlockToMine\<close> makes of all headers, concatenated in the order of the
  shard ids. The minor-block request to the first slave of the branch gives
  \<open>MINOR block\<close> when the slave answers with error code 0 and a block, and \<open>NONE\<close>
  otherwise.
\<close>

theorem root_block_or_fallback:
  fixes env :: "('e::linorder, 'rs, 'addr, 'hdr, 'rb, 'mb) mining_env"
  assumes "merge_header_responses (coreOps env) (SHARD_SIZE env) Map.empty
             (map (unconfirmedHeadersResp env) (slavePool m)) = Some d"
  shows "(\<forall>v randomizeOutput ecos st.
            merge_eco_responses []
              (map (ecoInfoListResp env)
                 (eco_slaves (coreOps env) (if v = 0 then None else Some v) (slavePool m))) =
              Some ecos \<and>
            select_winner (true_div env) (coreOps env) (getNextBlockDifficulty env (rootState m))
              (if v = 0 then None else Some v) randomizeOutput (random_draws env) ecos = Inr st \<and>
            branchValueWithMaxEco st = Some 0 \<longrightarrow>
            snd (getNextBlockToMine env m address v randomizeOutput) =
            snd (createRootBlockToMineOrFallbackToMinorBlock env m address)) \<and>
         (\<forall>sid < SHARD_SIZE env.
            length (headers_of d sid) < PROOF_OF_PROGRESS_BLOCKS env \<and>
            (\<forall>j < sid. \<not> length (headers_of d j) < PROOF_OF_PROGRESS_BLOCKS env) \<longrightarrow>
            snd (createRootBlockToMineOrFallbackToMinorBlock env m address) =
            snd (minor_or_none (getMinorBlockToMine env m
                   (Some (branchCreate (coreOps env) (SHARD_SIZE env) sid)) address))) \<and>
         ((\<forall>sid < SHARD_SIZE env. \<not> length (headers_of d sid) < PROOF_OF_PROGRESS_BLOCKS env) \<longrightarrow>
            snd (createRootBlockToMineOrFallbackToMinorBlock env m address) =
            Inr (ROOT (createBlockToMine env (rootState m)
                         (concat (map (headers_of d) [0..<SHARD_SIZE env])) address))) \<and>
         (\<forall>bv s rest a.
            branchToSlaves m bv = Some (s # rest) \<and>
            addressInBranch env address (Some bv) = Inr a \<longrightarrow>
            snd (minor_or_none (getMinorBlockToMine env m (Some bv) address)) =
            Inr (case nextBlockToMineResp env s (Some bv) a (artificialTxCount m) of
                   (errorCode, block) \<Rightarrow>
                     if errorCode = 0
                     then (case block of None \<Rightarrow> NONE | Some b \<Rightarrow> MINOR b)
                     else NONE))"
proof (intro conjI allI impI)
  fix v randomizeOutput ecos st
  assume "merge_eco_responses []
              (map (ecoInfoListResp env)
                 (eco_slaves (coreOps env) (if v = 0 then None else Some v) (slavePool m))) =
              Some ecos \<and>
            select_winner (true_div env) (coreOps env) (getNextBlockDifficulty env (rootState m))
              (if v = 0 then None else Some v) randomizeOutput (random_draws env) ecos = Inr st \<and>
            branchValueWithMaxEco st = Some 0"
  then show "snd (getNextBlockToMine env m address v randomizeOutput) =
            snd (createRootBlockToMineOrFallbackToMinorBlock env m address)"
    using getNextBlockToMine_root[of env v m ecos randomizeOutput st address] by blast
next
  fix sid
  assume lt: "sid < SHARD_SIZE env"
    and h: "length (headers_of d sid) < PROOF_OF_PROGRESS_BLOCKS env \<and>
            (\<forall>j < sid. \<not> length (headers_of d j) < PROOF_OF_PROGRESS_BLOCKS env)"
  have split: "[0..<SHARD_SIZE env] = [0..<sid] @ sid # [Suc sid..<SHARD_SIZE env]"
    using lt by (metis le0 upt_conv_Cons upt_add_eq_append le_add_diff_inverse less_imp_le_nat)
  have "proof_of_progress_loop env m address d [] [0..<SHARD_SIZE env] =
          minor_or_none (getMinorBlockToMine env m
                      (Some (branchCreate (coreOps env) (SHARD_SIZE env) sid)) address)"
    unfolding split using h by (intro proof_of_progress_loop_first) auto
  then show "snd (createRootBlockToMineOrFallbackToMinorBlock env m address) =
            snd (minor_or_none (getMinorBlockToMine env m
                   (Some (branchCreate (coreOps env) (SHARD_SIZE env) sid)) address))"
    using assms
    by (simp add: createRootBlockToMineOrFallbackToMinorBlock_def Let_def split: prod.splits)
next
  assume "\<forall>sid < SHARD_SIZE env. \<not> length (headers_of d sid) < PROOF_OF_PROGRESS_BLOCKS env"
  then have "proof_of_progress_loop env m address d [] [0..<SHARD_SIZE env] =
     ([], Inr (ROOT (createBlockToMine env (rootState m)
                       ([] @ concat (map (headers_of d) [0..<SHARD_SIZE env])) address)))"
    by (intro proof_of_progress_loop_all) auto
  then show "snd (createRootBlockToMineOrFallbackToMinorBlock env m address) =
            Inr (ROOT (createBlockToMine env (rootState m)
                         (concat (map (headers_of d) [0..<SHARD_SIZE env])) address))"
    using assms
    by (simp add: createRootBlockToMineOrFallbackToMinorBlock_def Let_def)
next
  fix bv s rest a
  assume "branchToSlaves m bv = Some (s # rest) \<and> addressInBranch env address (Some bv) = Inr a"
  then show "snd (minor_or_none (getMinorBlockToMine env m (Some bv) address)) =
            Inr (case nextBlockToMineResp env s (Some bv) a (artificialTxCount m) of
                   (errorCode, block) \<Rightarrow>
                     if errorCode = 0
                     then (case block of None \<Rightarrow> NONE | Some b \<Rightarrow> MINOR b)
                     else NONE)"
    by (simp add: minor_or_none_response)
qed

text \<open>
  In the two-shard cluster each shard has three unconfirmed headers: with a threshold of 1
  the result is the root block over all six headers, with a threshold of 4 it is the minor
  block of shard 0.
\<close>

theorem root_block_or_fallback_witness:
  "snd (getNextBlockToMine (two_shard_env [mkEcoInfo 2 5 2 3 100] [mkEcoInfo 3 6 10 50 100])
          two_shard_master 0 0 True) =
     snd (createRootBlockToMineOrFallbackToMinorBlock
            (two_shard_env [mkEcoInfo 2 5 2 3 100] [mkEcoInfo 3 6 10 50 100]) two_shard_master 0) \<and>
   snd (createRootBlockToMineOrFallbackToMinorBlock (two_shard_env [] []) two_shard_master 0) =
     Inr (ROOT 6) \<and>
   snd (createRootBlockToMineOrFallbackToMinorBlock
          ((two_shard_env [] [])\<lparr>PROOF_OF_PROGRESS_BLOCKS := 4\<rparr>) two_shard_master 0) =
     Inr (MINOR 2)"
proof -
  let ?E = "two_shard_env [] []"
  let ?E' = "?E\<lparr>PROOF_OF_PROGRESS_BLOCKS := 4\<rparr>"
  let ?d = "[0 \<mapsto> [10, 11, 12], 1 \<mapsto> [20, 21, 22::nat]]"
  have m: "merge_header_responses (coreOps ?E) (SHARD_SIZE ?E) Map.empty
             (map (unconfirmedHeadersResp ?E) (slavePool two_shard_master)) = Some ?d"
    by (simp add: two_shard_env_def two_shard_core_def two_shard_master_def slave1_def slave2_def)
  have m': "merge_header_responses (coreOps ?E') (SHARD_SIZE ?E') Map.empty
             (map (unconfirmedHeadersResp ?E') (slavePool two_shard_master)) = Some ?d"
    by (simp add: two_shard_env_def two_shard_core_def two_shard_master_def slave1_def slave2_def)
  let ?E2 = "two_shard_env [mkEcoInfo 2 5 2 3 100] [mkEcoInfo 3 6 10 50 100]"
  let ?ecos = "[(2::int, mkEcoInfo 2 5 2 3 100), (3, mkEcoInfo 3 6 10 50 100)]"
  let ?st = "\<lparr>branchValueWithMaxEco = Some 0, maxEco = 10 :: rat, dupEcoCount = 1,
              blockHeight = 0, drawn = 0\<rparr>"
  have m2: "merge_header_responses (coreOps ?E2) (SHARD_SIZE ?E2) Map.empty
             (map (unconfirmedHeadersResp ?E2) (slavePool two_shard_master)) = Some ?d"
    by (simp add: two_shard_env_def two_shard_core_def two_shard_master_def slave1_def slave2_def)
  have root: "merge_eco_responses []
              (map (ecoInfoListResp ?E2)
                 (eco_slaves (coreOps ?E2) (if (0::int) = 0 then None else Some 0)
                    (slavePool two_shard_master))) = Some ?ecos \<and>
      select_winner (true_div ?E2) (coreOps ?E2)
        (getNextBlockDifficulty ?E2 (rootState two_shard_master))
        (if (0::int) = 0 then None else Some 0) True (random_draws ?E2) ?ecos = Inr ?st \<and>
      branchValueWithMaxEco ?st = Some 0"
    by (simp add: mine_defs run_defs)
  have r0: "snd (getNextBlockToMine ?E2 two_shard_master 0 0 True) =
      snd (createRootBlockToMineOrFallbackToMinorBlock ?E2 two_shard_master 0)"
    using root_block_or_fallback[where env = "?E2" and m = two_shard_master and address = 0,
        OF m2, THEN conjunct1, rule_format, OF root] .
  have full: "\<forall>sid < SHARD_SIZE ?E. \<not> length (headers_of ?d sid) < PROOF_OF_PROGRESS_BLOCKS ?E"
    by (simp add: two_shard_env_def headers_of_def less_Suc_eq numeral_2_eq_2)
  have short: "(0::nat) < SHARD_SIZE ?E' \<and> length (headers_of ?d 0) < PROOF_OF_PROGRESS_BLOCKS ?E' \<and>
      (\<forall>j < (0::nat). \<not> length (headers_of ?d j) < PROOF_OF_PROGRESS_BLOCKS ?E')"
    by (simp add: two_shard_env_def headers_of_def)
  have r1: "snd (createRootBlockToMineOrFallbackToMinorBlock ?E two_shard_master 0) =
      Inr (ROOT (createBlockToMine ?E (rootState two_shard_master)
                   (concat (map (headers_of ?d) [0..<SHARD_SIZE ?E])) 0))"
    using root_block_or_fallback[where env = "?E" and m = two_shard_master and address = 0, OF m]
      full by blast
  have r2: "snd (createRootBlockToMineOrFallbackToMinorBlock ?E' two_shard_master 0) =
      snd (minor_or_none (getMinorBlockToMine ?E' two_shard_master
             (Some (branchCreate (coreOps ?E') (SHARD_SIZE ?E') 0)) 0))"
    using root_block_or_fallback[where env = "?E'" and m = two_shard_master and address = 0, OF m']
      short by blast
  have e1: "createBlockToMine ?E (rootState two_shard_master)
                   (concat (map (headers_of ?d) [0..<SHARD_SIZE ?E])) 0 = 6"
    by (simp add: two_shard_env_def headers_of_def numeral_2_eq_2)
  have e2: "snd (minor_or_none (getMinorBlockToMine ?E' two_shard_master
             (Some (branchCreate (coreOps ?E') (SHARD_SIZE ?E') 0)) 0)) =
            (Inr (MINOR 2) :: py_error + (nat, int) mine_result)"
    by (simp add: two_shard_env_def two_shard_core_def two_shard_master_def mine_defs)
  from r0 r1 r2 e1 e2 show ?thesis by simp
qed

subsection \<open>The selection loop\<close>

lemma select_step_greater:
  assumes "\<not> masked_out c shardMask (fst item)" and "difficulty (snd item) \<noteq> 0"
    and "maxEco st < td (coinbaseAmount (snd item)) (difficulty (snd item))"
  shows "select_step td c shardMask randomizeOutput draws st item =
           Inr (st\<lparr>branchValueWithMaxEco := Some (fst item),
                   maxEco := td (coinbaseAmount (snd item)) (difficulty (snd item)),
                   dupEcoCount := 1, blockHeight := height (snd item)\<rparr>)"
  using assms by (simp add: select_step_def py_truediv_def Let_def)

lemma select_step_equal_no_random:
  assumes "\<not> masked_out c shardMask (fst item)" and "difficulty (snd item) \<noteq> 0"
    and "td (coinbaseAmount (snd item)) (difficulty (snd item)) = maxEco st"
  shows "select_step td c shardMask False draws st item =
           Inr (if branchValueWithMaxEco st = None \<or>
                   (winner_is_shard (branchValueWithMaxEco st) \<and> blockHeight st > height (snd item))
                then st\<lparr>branchValueWithMaxEco := Some (fst item),
                        maxEco := td (coinbaseAmount (snd item)) (difficulty (snd item)),
                        dupEcoCount := 1, blockHeight := height (snd item)\<rparr>
                else st)"
  using assms by (simp add: select_step_def py_truediv_def Let_def)

lemma select_two_shards:
  fixes td :: "int \<Rightarrow> int \<Rightarrow> 'e::linorder"
  assumes diff: "difficulty A \<noteq> 0" "difficulty B \<noteq> 0"
    and pos: "0 < a" "0 < b"
    and root: "root_eco td rootDifficulty [(a, A), (b, B)] = Inr z"
    and ecoA: "td (coinbaseAmount A) (difficulty A) = e"
    and ecoB: "td (coinbaseAmount B) (difficulty B) = e"
    and above: "z < e"
    and lower: "height A < height B"
  shows "\<exists>st. select_winner td c rootDifficulty None randomizeOutput draws [(a, A), (b, B)] = Inr st \<and>
              branchValueWithMaxEco st = Some a"
    and "\<exists>st. select_winner td c rootDifficulty None randomizeOutput draws [(b, B), (a, A)] = Inr st \<and>
              branchValueWithMaxEco st = Some a"
proof -
  have root': "root_eco td rootDifficulty [(b, B), (a, A)] = Inr z"
    using root by (simp add: root_eco_def rootCoinbaseAmount_def add.commute)
  show "\<exists>st. select_winner td c rootDifficulty None randomizeOutput draws [(a, A), (b, B)] = Inr st \<and>
              branchValueWithMaxEco st = Some a"
    using diff pos ecoA ecoB above lower root
    by (simp add: select_winner_def select_step_def py_truediv_def Let_def masked_out_def
        winner_is_shard_def)
  show "\<exists>st. select_winner td c rootDifficulty None randomizeOutput draws [(b, B), (a, A)] = Inr st \<and>
              branchValueWithMaxEco st = Some a"
    using diff pos ecoA ecoB above lower root'
    by (simp add: select_winner_def select_step_def py_truediv_def Let_def masked_out_def
        winner_is_shard_def)
qed

lemma select_step_tie_random:
  assumes "\<not> masked_out c shardMask (fst item)" and "difficulty (snd item) \<noteq> 0"
    and "td (coinbaseAmount (snd item)) (difficulty (snd item)) = maxEco st"
    and "branchValueWithMaxEco st = Some w"
    and "1 \<le> dupEcoCount st"
  shows "select_step td c shardMask True draws st item =
           Inr (if 0 < w \<and> blockHeight st > height (snd item)
                then st\<lparr>branchValueWithMaxEco := Some (fst item),
                        maxEco := td (coinbaseAmount (snd item)) (difficulty (snd item)),
                        dupEcoCount := 1, blockHeight := height (snd item)\<rparr>
                else if 0 < w \<and> blockHeight st < height (snd item) then st
                else if draws (drawn st) < td 1 (dupEcoCount st + 1)
                then st\<lparr>branchValueWithMaxEco := Some (fst item),
                        dupEcoCount := dupEcoCount st + 1, drawn := Suc (drawn st)\<rparr>
                else st\<lparr>dupEcoCount := dupEcoCount st + 1, drawn := Suc (drawn st)\<rparr>)"
  using assms by (simp add: select_step_def py_truediv_def Let_def winner_is_shard_def)

text \<open>\<^verbatim>\<open>dupEcoCount\<close> starts at 1 and never falls below it.\<close>

lemma select_step_dup_pos:
  "select_step td c shardMask randomizeOutput draws st item = Inr st' \<Longrightarrow>
   1 \<le> dupEcoCount st \<Longrightarrow> 1 \<le> dupEcoCount st'"
  by (auto simp: select_step_def py_truediv_def Let_def split: if_splits sum.splits)

text \<open>
  C3, as the code has it. A candidate that the loop considers (not masked out, with a
  non-zero difficulty) and whose eco is strictly greater than the current maximum replaces
  the winner, resets \<^verbatim>\<open>dupEcoCount\<close> to 1 and records its height. Without randomisation, a
  candidate whose eco equals the maximum replaces the winner exactly when the winner is
  still unset or the winner is a shard whose recorded height is strictly greater than the
  candidate's. Hence, for two shards of the same eco that is strictly above the eco of the
  root, the shard of the lower height wins in either order of iteration.
\<close>

theorem lower_height_preferred:
  fixes td :: "int \<Rightarrow> int \<Rightarrow> 'e::linorder"
  shows
  "(\<not> masked_out c shardMask (fst item) \<and> difficulty (snd item) \<noteq> 0 \<and>
    maxEco st < td (coinbaseAmount (snd item)) (difficulty (snd item)) \<longrightarrow>
      select_step td c shardMask randomizeOutput draws st item =
        Inr (st\<lparr>branchValueWithMaxEco := Some (fst item),
                maxEco := td (coinbaseAmount (snd item)) (difficulty (snd item)),
                dupEcoCount := 1, blockHeight := height (snd item)\<rparr>)) \<and>
   (\<not> masked_out c shardMask (fst item) \<and> difficulty (snd item) \<noteq> 0 \<and>
    td (coinbaseAmount (snd item)) (difficulty (snd item)) = maxEco st \<longrightarrow>
      select_step td c shardMask False draws st item =
        Inr (if branchValueWithMaxEco st = None \<or>
                (winner_is_shard (branchValueWithMaxEco st) \<and> blockHeight st > height (snd item))
             then st\<lparr>branchValueWithMaxEco := Some (fst item),
                     maxEco := td (coinbaseAmount (snd item)) (difficulty (snd item)),
                     dupEcoCount := 1, blockHeight := height (snd item)\<rparr>
             else st)) \<and>
   (difficulty A \<noteq> 0 \<and> difficulty B \<noteq> 0 \<and> 0 < a \<and> 0 < b \<and>
    root_eco td rootDifficulty [(a, A), (b, B)] = Inr z \<and>
    td (coinbaseAmount A) (difficulty A) = e \<and> td (coinbaseAmount B) (difficulty B) = e \<and>
    z < e \<and> height A < height B \<longrightarrow>
      (\<exists>st. select_winner td c rootDifficulty None False draws [(a, A), (b, B)] = Inr st \<and>
            branchValueWithMaxEco st = Some a) \<and>
      (\<exists>st. select_winner td c rootDifficulty None False draws [(b, B), (a, A)] = Inr st \<and>
            branchValueWithMaxEco st = Some a))"
  using select_step_greater[of c shardMask item st td randomizeOutput draws]
    select_step_equal_no_random[of c shardMask item td st draws]
    select_two_shards[of A B a b td rootDifficulty z e c False draws]
  by blast

text \<open>
  C3 as stated fails in two places. With a mask the winner starts unset, and the first
  candidate takes over although no shard is the winner: here a candidate of mkEcoInfo 0 against a
  maximum of 0. And two shards of equal eco lose against a root of zero eco when their own
  eco is zero as well: the root stays the winner.
\<close>

theorem lower_height_preferred_counterexample:
  "select_step rat_div two_shard_core (Some 1) False (\<lambda>i. 1 / 4)
     \<lparr>branchValueWithMaxEco = None, maxEco = 0, dupEcoCount = 1, blockHeight = 0, drawn = 0\<rparr>
     (2, mkEcoInfo 2 7 1 0 0) =
     Inr \<lparr>branchValueWithMaxEco = Some 2, maxEco = 0, dupEcoCount = 1, blockHeight = 7, drawn = 0\<rparr> \<and>
   root_eco rat_div 10 [(2, mkEcoInfo 2 5 1 0 0), (3, mkEcoInfo 3 6 1 0 0)] = Inr 0 \<and>
   rat_div (coinbaseAmount (mkEcoInfo 2 5 1 0 0)) (difficulty (mkEcoInfo 2 5 1 0 0)) =
     rat_div (coinbaseAmount (mkEcoInfo 3 6 1 0 0)) (difficulty (mkEcoInfo 3 6 1 0 0)) \<and>
   select_winner rat_div two_shard_core 10 None False (\<lambda>i. 1 / 4)
     [(2, mkEcoInfo 2 5 1 0 0), (3, mkEcoInfo 3 6 1 0 0)] =
     Inr \<lparr>branchValueWithMaxEco = Some 0, maxEco = 0, dupEcoCount = 1, blockHeight = 0, drawn = 0\<rparr>"
  by (simp add: select_winner_def root_eco_def rootCoinbaseAmount_def select_step_def
      py_truediv_def rat_div_def masked_out_def winner_is_shard_def mkEcoInfo_def two_shard_core_def)

text \<open>
  A candidate of mkEcoInfo 15 against the root of mkEcoInfo 0; a tie against a shard recorded at
  height 5 by a candidate of height 4; and two shards of mkEcoInfo 15 at heights 5 and 6, in both
  orders.
\<close>

theorem lower_height_preferred_witness:
  "select_step rat_div two_shard_core None False (\<lambda>i. 1 / 4)
     \<lparr>branchValueWithMaxEco = Some 0, maxEco = 0, dupEcoCount = 1, blockHeight = 0, drawn = 0\<rparr>
     (2, mkEcoInfo 2 5 2 30 0) =
     Inr \<lparr>branchValueWithMaxEco = Some 2, maxEco = 15, dupEcoCount = 1, blockHeight = 5, drawn = 0\<rparr> \<and>
   select_step rat_div two_shard_core None False (\<lambda>i. 1 / 4)
     \<lparr>branchValueWithMaxEco = Some 2, maxEco = 15, dupEcoCount = 1, blockHeight = 5, drawn = 0\<rparr>
     (3, mkEcoInfo 3 4 2 30 0) =
     Inr \<lparr>branchValueWithMaxEco = Some 3, maxEco = 15, dupEcoCount = 1, blockHeight = 4, drawn = 0\<rparr> \<and>
   (\<exists>st. select_winner rat_div two_shard_core 10 None False (\<lambda>i. 1 / 4)
           [(2, mkEcoInfo 2 5 2 30 0), (3, mkEcoInfo 3 6 2 30 0)] = Inr st \<and>
         branchValueWithMaxEco st = Some 2) \<and>
   (\<exists>st. select_winner rat_div two_shard_core 10 None False (\<lambda>i. 1 / 4)
           [(3, mkEcoInfo 3 6 2 30 0), (2, mkEcoInfo 2 5 2 30 0)] = Inr st \<and>
         branchValueWithMaxEco st = Some 2)"
proof -
  let ?draws = "\<lambda>i::nat. 1 / 4 :: rat"
  let ?st0 = "\<lparr>branchValueWithMaxEco = Some 0, maxEco = 0 :: rat, dupEcoCount = 1,
               blockHeight = 0, drawn = 0\<rparr>"
  let ?st1 = "\<lparr>branchValueWithMaxEco = Some 2, maxEco = 15 :: rat, dupEcoCount = 1,
               blockHeight = 5, drawn = 0\<rparr>"
  let ?A = "mkEcoInfo 2 5 2 30 0" and ?B = "mkEcoInfo 3 6 2 30 0" and ?C = "mkEcoInfo 3 4 2 30 0"
  let ?iA = "(2::int, ?A)" and ?iC = "(3::int, ?C)"
  have greater: "\<not> masked_out two_shard_core None (fst ?iA) \<and> difficulty (snd ?iA) \<noteq> 0 \<and>
      maxEco ?st0 < rat_div (coinbaseAmount (snd ?iA)) (difficulty (snd ?iA))"
    by (simp add: masked_out_def mkEcoInfo_def rat_div_def)
  have tie: "\<not> masked_out two_shard_core None (fst ?iC) \<and> difficulty (snd ?iC) \<noteq> 0 \<and>
      rat_div (coinbaseAmount (snd ?iC)) (difficulty (snd ?iC)) = maxEco ?st1"
    by (simp add: masked_out_def mkEcoInfo_def rat_div_def)
  have fixture: "difficulty ?A \<noteq> 0 \<and> difficulty ?B \<noteq> 0 \<and> (0::int) < 2 \<and> (0::int) < 3 \<and>
      root_eco rat_div 10 [(2, ?A), (3, ?B)] = Inr 0 \<and>
      rat_div (coinbaseAmount ?A) (difficulty ?A) = 15 \<and>
      rat_div (coinbaseAmount ?B) (difficulty ?B) = 15 \<and>
      (0::rat) < 15 \<and> height ?A < height ?B"
    by (simp add: run_defs)
  note r1 = lower_height_preferred[of two_shard_core None ?iA ?st0 rat_div False ?draws
      ?A ?B 2 3 10 0 15, THEN conjunct1, THEN mp, OF greater]
  note r2 = lower_height_preferred[of two_shard_core None ?iC ?st1 rat_div False ?draws
      ?A ?B 2 3 10 0 15, THEN conjunct2, THEN conjunct1, THEN mp, OF tie]
  note r3 = lower_height_preferred[of two_shard_core None ?iA ?st0 rat_div False ?draws
      ?A ?B 2 3 10 0 15, THEN conjunct2, THEN conjunct2, THEN mp, OF fixture]
  from r1 r2 r3 show ?thesis
    by (simp add: mkEcoInfo_def rat_div_def winner_is_shard_def)
qed

text \<open>
  C2, as the code has it. With randomisation, take a candidate that the loop considers,
  whose eco equals the current maximum, with a winner set, and that the replace rule does
  not take (the winner is not a shard recorded at a height strictly greater than the
  candidate's). When the winner is a shard and the candidate's height is strictly greater
  than the recorded one, the candidate is skipped and nothing changes. Otherwise
  \<^verbatim>\<open>dupEcoCount\<close> is incremented, one random draw is taken, and the candidate replaces the
  winner exactly when the draw is below \<open>1 / dupEcoCount\<close>; the recorded height stays.
\<close>

theorem reservoir_tie_break:
  fixes td :: "int \<Rightarrow> int \<Rightarrow> 'e::linorder"
  assumes "\<not> masked_out c shardMask (fst item)" and "difficulty (snd item) \<noteq> 0"
    and "td (coinbaseAmount (snd item)) (difficulty (snd item)) = maxEco st"
    and "branchValueWithMaxEco st = Some w"
    and "1 \<le> dupEcoCount st"
    and "\<not> (0 < w \<and> blockHeight st > height (snd item))"
  shows "(0 < w \<and> blockHeight st < height (snd item) \<longrightarrow>
            select_step td c shardMask True draws st item = Inr st) \<and>
         (\<not> (0 < w \<and> blockHeight st < height (snd item)) \<longrightarrow>
            select_step td c shardMask True draws st item =
              Inr (if draws (drawn st) < td 1 (dupEcoCount st + 1)
                   then st\<lparr>branchValueWithMaxEco := Some (fst item),
                           dupEcoCount := dupEcoCount st + 1, drawn := Suc (drawn st)\<rparr>
                   else st\<lparr>dupEcoCount := dupEcoCount st + 1, drawn := Suc (drawn st)\<rparr>))"
  using select_step_tie_random[of c shardMask item td st w draws] assms
  by auto

text \<open>
  C2 as stated fails for a candidate of equal eco below the recorded height of a winning
  shard: the replace rule takes it. The count stays at 1, no draw is taken, and the
  candidate wins although the draw on offer, 1, is not below \<open>1 / 2\<close>.
\<close>

theorem reservoir_tie_break_counterexample:
  "select_step rat_div two_shard_core None True (\<lambda>i. 1)
     \<lparr>branchValueWithMaxEco = Some 2, maxEco = 1, dupEcoCount = 1, blockHeight = 5, drawn = 0\<rparr>
     (3, mkEcoInfo 3 3 1 1 0) =
     Inr \<lparr>branchValueWithMaxEco = Some 3, maxEco = 1, dupEcoCount = 1, blockHeight = 3, drawn = 0\<rparr>"
  by (simp add: select_step_def py_truediv_def rat_div_def masked_out_def winner_is_shard_def
      mkEcoInfo_def)

text \<open>
  A tie against the root with the draw \<open>1/4\<close>, which is below \<open>1/2\<close>; and a tie
  against a shard recorded at height 5 by a candidate of height 6, which is skipped.
\<close>

theorem reservoir_tie_break_witness:
  "select_step rat_div two_shard_core None True (\<lambda>i. 1 / 4)
     \<lparr>branchValueWithMaxEco = Some 0, maxEco = 15, dupEcoCount = 1, blockHeight = 0, drawn = 0\<rparr>
     (2, mkEcoInfo 2 5 2 30 0) =
     Inr \<lparr>branchValueWithMaxEco = Some 2, maxEco = 15, dupEcoCount = 2, blockHeight = 0, drawn = 1\<rparr> \<and>
   select_step rat_div two_shard_core None True (\<lambda>i. 1 / 4)
     \<lparr>branchValueWithMaxEco = Some 2, maxEco = 15, dupEcoCount = 1, blockHeight = 5, drawn = 0\<rparr>
     (3, mkEcoInfo 3 6 2 30 0) =
     Inr \<lparr>branchValueWithMaxEco = Some 2, maxEco = 15, dupEcoCount = 1, blockHeight = 5, drawn = 0\<rparr>"
proof -
  let ?draws = "\<lambda>i::nat. 1 / 4 :: rat"
  let ?st0 = "\<lparr>branchValueWithMaxEco = Some 0, maxEco = 15 :: rat, dupEcoCount = 1,
               blockHeight = 0, drawn = 0\<rparr>"
  let ?st1 = "\<lparr>branchValueWithMaxEco = Some 2, maxEco = 15 :: rat, dupEcoCount = 1,
               blockHeight = 5, drawn = 0\<rparr>"
  let ?A = "mkEcoInfo 2 5 2 30 0" and ?B = "mkEcoInfo 3 6 2 30 0"
  have a1: "\<not> masked_out two_shard_core None (fst (2::int, ?A))" "difficulty (snd (2::int, ?A)) \<noteq> 0"
    "rat_div (coinbaseAmount (snd (2::int, ?A))) (difficulty (snd (2::int, ?A))) = maxEco ?st0"
    "branchValueWithMaxEco ?st0 = Some 0" "1 \<le> dupEcoCount ?st0"
    "\<not> ((0::int) < 0 \<and> blockHeight ?st0 > height (snd (2::int, ?A)))"
    by (simp_all add: masked_out_def mkEcoInfo_def rat_div_def)
  have b1: "\<not> masked_out two_shard_core None (fst (3::int, ?B))" "difficulty (snd (3::int, ?B)) \<noteq> 0"
    "rat_div (coinbaseAmount (snd (3::int, ?B))) (difficulty (snd (3::int, ?B))) = maxEco ?st1"
    "branchValueWithMaxEco ?st1 = Some 2" "1 \<le> dupEcoCount ?st1"
    "\<not> ((0::int) < 2 \<and> blockHeight ?st1 > height (snd (3::int, ?B)))"
    by (simp_all add: masked_out_def mkEcoInfo_def rat_div_def)
  have r1: "select_step rat_div two_shard_core None True ?draws ?st0 (2::int, ?A) =
      Inr (if ?draws (drawn ?st0) < rat_div 1 (dupEcoCount ?st0 + 1)
           then ?st0\<lparr>branchValueWithMaxEco := Some (fst (2::int, ?A)),
                      dupEcoCount := dupEcoCount ?st0 + 1, drawn := Suc (drawn ?st0)\<rparr>
           else ?st0\<lparr>dupEcoCount := dupEcoCount ?st0 + 1, drawn := Suc (drawn ?st0)\<rparr>)"
    using reservoir_tie_break[of two_shard_core None "(2::int, ?A)" rat_div ?st0 0 ?draws] a1
    by simp
  have r2: "select_step rat_div two_shard_core None True ?draws ?st1 (3::int, ?B) = Inr ?st1"
    using reservoir_tie_break[of two_shard_core None "(3::int, ?B)" rat_div ?st1 2 ?draws] b1
    by (simp add: mkEcoInfo_def)
  from r1 r2 show ?thesis
    by (simp add: rat_div_def)
qed

subsection \<open>The economy of the root chain\<close>

lemma sum_unconfirmed_sum_list:
  "sum_unconfirmed acc d = acc + sum_list (map (\<lambda>item. unconfirmedHeadersCoinbaseAmount (snd item)) d)"
  by (induction d arbitrary: acc) simp_all

lemma dict_set_keys: "fst ` set (dict_set d k v) = insert k (fst ` set d)"
  by (induction d) auto

lemma dict_set_distinct: "distinct (map fst d) \<Longrightarrow> distinct (map fst (dict_set d k v))"
  by (induction d) (auto simp: dict_set_keys)

lemma merge_ecoInfoList_distinct:
  "distinct (map fst d) \<Longrightarrow> distinct (map fst (merge_ecoInfoList d eis))"
  by (induction eis arbitrary: d) (simp_all add: dict_set_distinct)

lemma merge_eco_responses_distinct:
  "merge_eco_responses d rs = Some d' \<Longrightarrow> distinct (map fst d) \<Longrightarrow> distinct (map fst d')"
proof (induction rs arbitrary: d)
  case Nil
  then show ?case by simp
next
  case (Cons r rs)
  obtain errorCode eis where r: "r = (errorCode, eis)" by (cases r)
  with Cons.prems have "merge_eco_responses (merge_ecoInfoList d eis) rs = Some d'"
    by (simp split: if_splits)
  from Cons.IH[OF this] Cons.prems(2) show ?case
    by (simp add: merge_ecoInfoList_distinct)
qed

lemma sum_list_distinct_keys:
  "distinct (map fst d) \<Longrightarrow>
   sum_list (map (\<lambda>item. g (snd item)) d) = (\<Sum>k \<in> dom (map_of d). g (the (map_of d k)))"
proof (induction d)
  case Nil
  then show ?case by simp
next
  case (Cons p d)
  obtain k v where p: "p = (k, v)" by (cases p)
  from Cons.prems p have notin: "k \<notin> dom (map_of d)" and dist: "distinct (map fst d)"
    by (auto simp: dom_map_of_conv_image_fst)
  have dom: "dom (map_of (p # d)) = insert k (dom (map_of d))"
    using p by auto
  have fin: "finite (dom (map_of d))" by (simp add: finite_dom_map_of)
  have "(\<Sum>k' \<in> dom (map_of (p # d)). g (the (map_of (p # d) k'))) =
        g (the (map_of (p # d) k)) + (\<Sum>k' \<in> dom (map_of d). g (the (map_of (p # d) k')))"
    unfolding dom using fin notin by (rule sum.insert)
  also have "g (the (map_of (p # d) k)) = g v"
    using p by simp
  also have "(\<Sum>k' \<in> dom (map_of d). g (the (map_of (p # d) k'))) =
             (\<Sum>k' \<in> dom (map_of d). g (the (map_of d k')))"
    using notin p by (intro sum.cong) auto
  also have "\<dots> = sum_list (map (\<lambda>item. g (snd item)) d)"
    using Cons.IH[OF dist] by simp
  finally show ?case
    using p by simp
qed

text \<open>
  C6, as the code has it. The economy of the root candidate is the quotient of
  \<open>S div 2\<close> by the next root difficulty, where \<open>S\<close> is the sum of
  \<^verbatim>\<open>unconfirmedHeadersCoinbaseAmount\<close> over the merged branches: the halving is Python's
  floor division, so with exact division of the result the economy is
  \<open>\<lfloor>S / 2\<rfloor> / difficulty\<close>.
\<close>

theorem root_eco_floor:
  assumes "merge_eco_responses [] rs = Some d" and "rootDifficulty \<noteq> 0"
  shows "root_eco td rootDifficulty d =
           Inr (td ((\<Sum>b \<in> dom (map_of d). unconfirmedHeadersCoinbaseAmount (the (map_of d b))) div 2)
                  rootDifficulty) \<and>
         root_eco rat_div rootDifficulty d =
           Inr (of_int \<lfloor>(of_int (\<Sum>b \<in> dom (map_of d).
                                 unconfirmedHeadersCoinbaseAmount (the (map_of d b))) :: rat) / 2\<rfloor>
                / of_int rootDifficulty)"
proof -
  have "distinct (map fst d)"
    using merge_eco_responses_distinct[OF assms(1)] by simp
  then have s: "sum_unconfirmed 0 d =
      (\<Sum>b \<in> dom (map_of d). unconfirmedHeadersCoinbaseAmount (the (map_of d b)))"
    by (simp add: sum_unconfirmed_sum_list sum_list_distinct_keys)
  have fl: "\<lfloor>(of_int x :: rat) / 2\<rfloor> = x div 2" for x :: int
    using floor_divide_of_int_eq[of x 2, where ?'a = rat] by simp
  show ?thesis
    using assms(2)
    by (simp add: root_eco_def rootCoinbaseAmount_def py_truediv_def s rat_div_def fl
        del: of_int_sum)
qed

text \<open>
  C6 as stated, with an exact halving, fails on an odd sum: for a sum of 201 and a
  difficulty of 10 the code gives \<open>100 / 10\<close> and the formula \<open>100.5 / 10\<close>.
\<close>

theorem root_eco_exact_counterexample:
  "root_eco rat_div 10 [(2, mkEcoInfo 2 5 2 30 201)] \<noteq>
     Inr ((of_int (unconfirmedHeadersCoinbaseAmount (mkEcoInfo 2 5 2 30 201)) / 2) / of_int 10)"
  by (simp add: root_eco_def rootCoinbaseAmount_def py_truediv_def rat_div_def mkEcoInfo_def)

text \<open>
  One branch with an unconfirmed amount of 201 and a root difficulty of 10.
\<close>

theorem root_eco_floor_witness:
  "merge_eco_responses [] [(0, [mkEcoInfo 2 5 2 30 201])] = Some [(2, mkEcoInfo 2 5 2 30 201)] \<and>
   root_eco rat_div 10 [(2, mkEcoInfo 2 5 2 30 201)] = Inr 10"
proof -
  let ?d = "[(2::int, mkEcoInfo 2 5 2 30 201)]"
  have m: "merge_eco_responses [] [(0, [mkEcoInfo 2 5 2 30 201])] = Some ?d"
    by (simp add: mkEcoInfo_def)
  have nz: "(10::int) \<noteq> 0" by simp
  have s: "(\<Sum>b \<in> dom (map_of ?d). unconfirmedHeadersCoinbaseAmount (the (map_of ?d b))) = 201"
    by (simp add: mkEcoInfo_def)
  from root_eco_floor[where td = rat_div, OF m nz, THEN conjunct2]
  have "root_eco rat_div 10 ?d = Inr (of_int \<lfloor>(of_int 201 :: rat) / 2\<rfloor> / of_int 10)"
    unfolding s .
  moreover have "\<lfloor>(of_int 201 :: rat) / 2\<rfloor> = 100"
    by (simp add: floor_eq_iff)
  ultimately show ?thesis using m by simp
qed

subsection \<open>Selection under a shard mask\<close>

lemma select_step_winner:
  "select_step td c shardMask randomizeOutput draws st item = Inr st' \<Longrightarrow>
   branchValueWithMaxEco st' = branchValueWithMaxEco st \<or>
   (branchValueWithMaxEco st' = Some (fst item) \<and> \<not> masked_out c shardMask (fst item))"
  by (auto simp: select_step_def py_truediv_def Let_def split: if_splits sum.splits)

lemma select_loop_winner:
  "select_loop td c shardMask randomizeOutput draws st d = Inr st' \<Longrightarrow>
   branchValueWithMaxEco st' = branchValueWithMaxEco st \<or>
   (\<exists>item \<in> set d. branchValueWithMaxEco st' = Some (fst item) \<and>
                    \<not> masked_out c shardMask (fst item))"
proof (induction d arbitrary: st)
  case Nil
  then show ?case by simp
next
  case (Cons item d)
  then obtain st1 where one: "select_step td c shardMask randomizeOutput draws st item = Inr st1"
    and rest: "select_loop td c shardMask randomizeOutput draws st1 d = Inr st'"
    by (auto split: sum.splits)
  from select_step_winner[OF one] Cons.IH[OF rest] show ?case
    by auto
qed

lemma select_loop_all_masked:
  "\<forall>item \<in> set d. masked_out c shardMask (fst item) \<Longrightarrow>
   select_loop td c shardMask randomizeOutput draws st d = Inr st"
  by (induction d) (simp_all add: select_step_def Let_def)

lemma getMinorBlockToMine_trace:
  "fst (getMinorBlockToMine env m branch address) = [] \<or>
   (\<exists>s. fst (getMinorBlockToMine env m branch address) = [GET_NEXT_BLOCK_TO_MINE_REQUEST s])"
  by (auto simp: getMinorBlockToMine_def split: sum.splits prod.splits)

lemma minor_or_none_fst: "fst (minor_or_none r) = fst r"
  by (auto simp: minor_or_none_def split: prod.splits sum.splits option.splits)

lemma minor_or_none_not_root: "snd (minor_or_none r) \<noteq> Inr (ROOT rb)"
  by (auto simp: minor_or_none_def split: prod.splits sum.splits option.splits)

lemma getMinorBlockToMine_unset: "\<exists>e. getMinorBlockToMine env m None address = ([], Inl e)"
  by (auto simp: getMinorBlockToMine_def getSlaveConnection_def split: sum.splits)

lemma eco_slaves_masked:
  "set (eco_slaves c (Some sm) pool) = {s \<in> set pool. hasOverlap c s sm}"
  by (auto simp: eco_slaves_def)

lemma getNextBlockToMine_masked:
  assumes "shardMaskValue \<noteq> 0"
  shows "getNextBlockToMine env m address shardMaskValue randomizeOutput =
     (let polled = eco_slaves (coreOps env) (Some shardMaskValue) (slavePool m);
          tr = map GET_ECO_INFO_LIST_REQUEST polled
      in case merge_eco_responses [] (map (ecoInfoListResp env) polled) of
           None \<Rightarrow> (tr, Inr NONE)
         | Some d \<Rightarrow>
             (case select_winner (true_div env) (coreOps env)
                     (getNextBlockDifficulty env (rootState m)) (Some shardMaskValue)
                     randomizeOutput (random_draws env) d of
                Inl e \<Rightarrow> (tr, Inl e)
              | Inr st \<Rightarrow>
                  (if branchValueWithMaxEco st = Some 0
                   then (tr @ fst (createRootBlockToMineOrFallbackToMinorBlock env m address),
                         snd (createRootBlockToMineOrFallbackToMinorBlock env m address))
                   else (tr @ fst (getMinorBlockToMine env m (branchValueWithMaxEco st) address),
                         snd (minor_or_none
                                (getMinorBlockToMine env m (branchValueWithMaxEco st) address))))))"
  using assms
  by (simp add: getNextBlockToMine_def Let_def case_prod_beta minor_or_none_fst
      split: option.splits sum.splits)

text \<open>
  C4. Let the shard mask value be non-zero, and let the mask not contain the root
  branch, whose value is 0 and which is no shard. Then \<^verbatim>\<open>GET_ECO_INFO_LIST_REQUEST\<close> goes
  exactly to the slaves of the pool that overlap the mask; a merged branch that the mask
  does not contain leaves the variables of the selection loop as they are; no
  \<^verbatim>\<open>GET_UNCONFIRMED_HEADERS_REQUEST\<close> is sent, that is, the root path is not taken; the
  result is never a root block; and the winner of the selection, if there is one, is a
  merged branch that the mask contains.
\<close>

theorem masked_selection_never_root:
  assumes "shardMaskValue \<noteq> 0" and "\<not> containBranch (coreOps env) shardMaskValue 0"
  shows "(\<forall>s. GET_ECO_INFO_LIST_REQUEST s
                 \<in> set (fst (getNextBlockToMine env m address shardMaskValue randomizeOutput)) \<longleftrightarrow>
              s \<in> set (slavePool m) \<and> hasOverlap (coreOps env) s shardMaskValue) \<and>
         (\<forall>st item.
            \<not> containBranch (coreOps env) shardMaskValue (fst item) \<longrightarrow>
            select_step (true_div env) (coreOps env) (Some shardMaskValue) randomizeOutput
              (random_draws env) st item = Inr st) \<and>
         (\<forall>s. GET_UNCONFIRMED_HEADERS_REQUEST s
                 \<notin> set (fst (getNextBlockToMine env m address shardMaskValue randomizeOutput))) \<and>
         (\<forall>rb. snd (getNextBlockToMine env m address shardMaskValue randomizeOutput) \<noteq> Inr (ROOT rb)) \<and>
         (\<forall>d st.
            merge_eco_responses []
              (map (ecoInfoListResp env)
                 (eco_slaves (coreOps env) (Some shardMaskValue) (slavePool m))) = Some d \<and>
            select_winner (true_div env) (coreOps env) (getNextBlockDifficulty env (rootState m))
              (Some shardMaskValue) randomizeOutput (random_draws env) d = Inr st \<longrightarrow>
            branchValueWithMaxEco st = None \<or>
            (\<exists>item \<in> set d. branchValueWithMaxEco st = Some (fst item) \<and>
                             containBranch (coreOps env) shardMaskValue (fst item)))"
proof -
  let ?c = "coreOps env"
  let ?polled = "eco_slaves ?c (Some shardMaskValue) (slavePool m)"
  let ?R = "getNextBlockToMine env m address shardMaskValue randomizeOutput"
  have winner: "branchValueWithMaxEco st = None \<or>
            (\<exists>item \<in> set d. branchValueWithMaxEco st = Some (fst item) \<and>
                             containBranch ?c shardMaskValue (fst item))"
    if "select_winner (true_div env) ?c (getNextBlockDifficulty env (rootState m))
              (Some shardMaskValue) randomizeOutput (random_draws env) d = Inr st" for d st
  proof -
    from that obtain eco0 where
      "select_loop (true_div env) ?c (Some shardMaskValue) randomizeOutput (random_draws env)
         \<lparr>branchValueWithMaxEco = None, maxEco = eco0, dupEcoCount = 1, blockHeight = 0, drawn = 0\<rparr>
         d = Inr st"
      by (auto simp: select_winner_def split: sum.splits)
    from select_loop_winner[OF this] show ?thesis
      by (auto simp: masked_out_def)
  qed
  have not_root: "branchValueWithMaxEco st \<noteq> Some 0"
    if "select_winner (true_div env) ?c (getNextBlockDifficulty env (rootState m))
              (Some shardMaskValue) randomizeOutput (random_draws env) d = Inr st" for d st
    using winner[OF that] assms(2) by auto
  have shape: "?R = (map GET_ECO_INFO_LIST_REQUEST ?polled, Inr NONE) \<or>
      (\<exists>e. ?R = (map GET_ECO_INFO_LIST_REQUEST ?polled, Inl e)) \<or>
      (\<exists>b. ?R = (map GET_ECO_INFO_LIST_REQUEST ?polled
                    @ fst (getMinorBlockToMine env m b address),
                  snd (minor_or_none (getMinorBlockToMine env m b address))))"
    using not_root
    by (auto simp: getNextBlockToMine_masked[OF assms(1)] Let_def split: option.splits sum.splits)
  have minor_tr: "GET_ECO_INFO_LIST_REQUEST s \<notin> set (fst (getMinorBlockToMine env m b address))"
    "GET_UNCONFIRMED_HEADERS_REQUEST s \<notin> set (fst (getMinorBlockToMine env m b address))"
    for s b
    using getMinorBlockToMine_trace[of env m b address]
    by auto
  have eco: "GET_ECO_INFO_LIST_REQUEST s \<in> set (fst ?R) \<longleftrightarrow>
              s \<in> set (slavePool m) \<and> hasOverlap ?c s shardMaskValue" for s
    using shape minor_tr(1) by (auto simp: eco_slaves_masked)
  have unc: "GET_UNCONFIRMED_HEADERS_REQUEST s \<notin> set (fst ?R)" for s
    using shape minor_tr(2) by auto
  have res: "snd ?R \<noteq> Inr (ROOT rb)" for rb
    using shape minor_or_none_not_root by (metis snd_conv sum.inject(2) mine_result.distinct(3) sum.distinct(1))
  have skip: "select_step (true_div env) ?c (Some shardMaskValue) randomizeOutput
              (random_draws env) st item = Inr st"
    if "\<not> containBranch ?c shardMaskValue (fst item)" for st item
    using that by (simp add: select_step_def masked_out_def Let_def)
  show ?thesis
    using eco unc res winner skip by blast
qed

text \<open>
  With the mask 3 only \<open>slave2\<close> is asked, and the block to mine is the minor block of
  branch 3.
\<close>

theorem masked_selection_never_root_witness:
  "(3::int) \<noteq> 0 \<and>
   \<not> containBranch (coreOps (two_shard_env [mkEcoInfo 2 5 2 30 100] [mkEcoInfo 3 6 10 50 100])) 3 0 \<and>
   getNextBlockToMine (two_shard_env [mkEcoInfo 2 5 2 30 100] [mkEcoInfo 3 6 10 50 100]) two_shard_master 0 3 True =
     ([GET_ECO_INFO_LIST_REQUEST slave2, GET_NEXT_BLOCK_TO_MINE_REQUEST slave2], Inr (MINOR 3)) \<and>
   snd (getNextBlockToMine (two_shard_env [mkEcoInfo 2 5 2 30 100] [mkEcoInfo 3 6 10 50 100])
          two_shard_master 0 3 True) \<noteq> Inr (ROOT 6) \<and>
   GET_ECO_INFO_LIST_REQUEST slave1 \<notin>
     set (fst (getNextBlockToMine (two_shard_env [mkEcoInfo 2 5 2 30 100] [mkEcoInfo 3 6 10 50 100])
                 two_shard_master 0 3 True))"
proof -
  let ?E = "two_shard_env [mkEcoInfo 2 5 2 30 100] [mkEcoInfo 3 6 10 50 100]"
  have nz: "(3::int) \<noteq> 0" by simp
  have noroot: "\<not> containBranch (coreOps ?E) 3 0"
    by (simp add: two_shard_env_def two_shard_core_def)
  note T = masked_selection_never_root[where env = "?E" and m = two_shard_master and
      address = 0 and randomizeOutput = True, OF nz noroot]
  have no1: "\<not> hasOverlap (coreOps ?E) slave1 3"
    by (simp add: two_shard_env_def two_shard_core_def hasOverlap_def slave1_def)
  from T have r: "snd (getNextBlockToMine ?E two_shard_master 0 3 True) \<noteq> Inr (ROOT 6)"
    by blast
  from T no1 have p: "GET_ECO_INFO_LIST_REQUEST slave1 \<notin>
     set (fst (getNextBlockToMine ?E two_shard_master 0 3 True))"
    by blast
  have run: "getNextBlockToMine ?E two_shard_master 0 3 True =
     ([GET_ECO_INFO_LIST_REQUEST slave2, GET_NEXT_BLOCK_TO_MINE_REQUEST slave2], Inr (MINOR 3))"
    by (simp add: mine_defs run_defs)
  from nz noroot r p run show ?thesis by blast
qed

text \<open>
  C10. Let the shard mask value be non-zero, the eco infos merged, and no merged branch
  contained in the mask (the root difficulty is not zero, so that the loop is reached).
  Then the selection ends with the winner still unset, which is not the branch value 0 of
  the root, the root path is not taken, and the function goes on to request a minor block
  for the unset winner. That request raises: the call ends with an exception and not with
  \<open>NONE\<close>.
\<close>

theorem masked_selection_without_candidates:
  assumes "shardMaskValue \<noteq> 0"
    and "merge_eco_responses []
           (map (ecoInfoListResp env)
              (eco_slaves (coreOps env) (Some shardMaskValue) (slavePool m))) = Some d"
    and "\<forall>item \<in> set d. \<not> containBranch (coreOps env) shardMaskValue (fst item)"
    and "getNextBlockDifficulty env (rootState m) \<noteq> 0"
  shows "(\<exists>st. select_winner (true_div env) (coreOps env) (getNextBlockDifficulty env (rootState m))
                 (Some shardMaskValue) randomizeOutput (random_draws env) d = Inr st \<and>
               branchValueWithMaxEco st = None \<and> branchValueWithMaxEco st \<noteq> Some 0) \<and>
         getNextBlockToMine env m address shardMaskValue randomizeOutput =
           (map GET_ECO_INFO_LIST_REQUEST
              (eco_slaves (coreOps env) (Some shardMaskValue) (slavePool m))
            @ fst (getMinorBlockToMine env m None address),
            snd (minor_or_none (getMinorBlockToMine env m None address))) \<and>
         (\<exists>e. snd (getNextBlockToMine env m address shardMaskValue randomizeOutput) = Inl e) \<and>
         snd (getNextBlockToMine env m address shardMaskValue randomizeOutput) \<noteq> Inr NONE"
proof -
  let ?st0 = "\<lparr>branchValueWithMaxEco = None,
               maxEco = true_div env (rootCoinbaseAmount d) (getNextBlockDifficulty env (rootState m)),
               dupEcoCount = 1, blockHeight = 0, drawn = 0\<rparr>"
  have masked: "\<forall>item \<in> set d. masked_out (coreOps env) (Some shardMaskValue) (fst item)"
    using assms(3) by (simp add: masked_out_def)
  have sel: "select_winner (true_div env) (coreOps env) (getNextBlockDifficulty env (rootState m))
                 (Some shardMaskValue) randomizeOutput (random_draws env) d = Inr ?st0"
    using assms(4) select_loop_all_masked[OF masked]
    by (simp add: select_winner_def root_eco_def py_truediv_def)
  have run: "getNextBlockToMine env m address shardMaskValue randomizeOutput =
           (map GET_ECO_INFO_LIST_REQUEST
              (eco_slaves (coreOps env) (Some shardMaskValue) (slavePool m))
            @ fst (getMinorBlockToMine env m None address),
            snd (minor_or_none (getMinorBlockToMine env m None address)))"
    using assms(2) sel
    by (simp add: getNextBlockToMine_masked[OF assms(1)] Let_def)
  obtain e where e: "getMinorBlockToMine env m None address = ([], Inl e)"
    using getMinorBlockToMine_unset[of env m address] by auto
  have err: "snd (getNextBlockToMine env m address shardMaskValue randomizeOutput) = Inl e"
    by (simp add: run e minor_or_none_def)
  show ?thesis
    using sel run err by simp
qed

text \<open>
  With the mask 3, \<open>slave2\<close> is asked and reports branch 2 only, which the mask does not
  contain: the call ends with the exception of the address translation.
\<close>

theorem masked_selection_without_candidates_witness:
  "merge_eco_responses []
     (map (ecoInfoListResp (two_shard_env [] [mkEcoInfo 2 5 2 30 100]))
        (eco_slaves (coreOps (two_shard_env [] [mkEcoInfo 2 5 2 30 100])) (Some 3)
           (slavePool two_shard_master))) = Some [(2, mkEcoInfo 2 5 2 30 100)] \<and>
   \<not> containBranch (coreOps (two_shard_env [] [mkEcoInfo 2 5 2 30 100])) 3 2 \<and>
   snd (getNextBlockToMine (two_shard_env [] [mkEcoInfo 2 5 2 30 100]) two_shard_master 0 3 True) =
     Inl TypeError"
proof -
  let ?E = "two_shard_env [] [mkEcoInfo 2 5 2 30 100]"
  let ?d = "[(2::int, mkEcoInfo 2 5 2 30 100)]"
  have nz: "(3::int) \<noteq> 0" by simp
  have m: "merge_eco_responses []
     (map (ecoInfoListResp ?E) (eco_slaves (coreOps ?E) (Some 3) (slavePool two_shard_master))) =
     Some ?d"
    by (simp add: mine_defs run_defs)
  have out: "\<forall>item \<in> set ?d. \<not> containBranch (coreOps ?E) 3 (fst item)"
    by (simp add: two_shard_env_def two_shard_core_def)
  have diff: "getNextBlockDifficulty ?E (rootState two_shard_master) \<noteq> 0"
    by (simp add: two_shard_env_def)
  from masked_selection_without_candidates[where env = "?E" and m = two_shard_master and
      address = 0 and randomizeOutput = True, OF nz m out diff]
  have "getNextBlockToMine ?E two_shard_master 0 3 True =
           (map GET_ECO_INFO_LIST_REQUEST (eco_slaves (coreOps ?E) (Some 3) (slavePool two_shard_master))
            @ fst (getMinorBlockToMine ?E two_shard_master None 0),
            snd (minor_or_none (getMinorBlockToMine ?E two_shard_master None 0)))"
    by blast
  moreover have "getMinorBlockToMine ?E two_shard_master None 0 = ([], Inl TypeError)"
    by (simp add: getMinorBlockToMine_def two_shard_env_def)
  ultimately have "snd (getNextBlockToMine ?E two_shard_master 0 3 True) = Inl TypeError"
    by (simp add: minor_or_none_def)
  with m out show ?thesis by simp
qed

end
